theory Spec2Isabelle
  imports Main
begin

section \<open>Data model (apps/casos/models.py)\<close>

text \<open>
  Dates are day numbers and datetimes are microsecond counts on the same time line, so
  that \<^verbatim>\<open>(a - b).days\<close> on dates is integer subtraction and
  \<^verbatim>\<open>timezone.now().date()\<close> is a floor division. \<^verbatim>\<open>date.today()\<close> is a
  clock reading of its own: the process's local date need not be the date of
  \<^verbatim>\<open>timezone.now()\<close>.
\<close>

type_synonym date = int
type_synonym datetime = int

definition timedelta_days :: "int \<Rightarrow> int" where
  "timedelta_days n = n * 86400000000"

definition timedelta_hours :: "int \<Rightarrow> int" where
  "timedelta_hours n = n * 3600000000"

definition timedelta_minutes :: "int \<Rightarrow> int" where
  "timedelta_minutes n = n * 60000000"

definition datetime_date :: "datetime \<Rightarrow> date" where
  "datetime_date t = t div 86400000000"

record reloj =
  hoy :: date
  ahora :: datetime

text \<open>\<^verbatim>\<open>django.contrib.auth.models.User\<close>, with the fields the application reads.\<close>

record usuario =
  user_id :: nat
  email :: string
  is_staff :: bool

datatype tipo_caso = AMPARO | PROTECCION | CDE

datatype estado_caso = EN_TRAMITACION | CERRADO | SUSPENDIDO | EN_APELACION

datatype tipo_alerta = VENCIMIENTO | AUDIENCIA | SEGUIMIENTO | NOTIFICACION

text \<open>
  \<^verbatim>\<open>Caso\<close>. \<open>pk\<close> is \<open>None\<close> until the first insert. \<open>fecha_vencimiento\<close> is
  optional on the instance (the code tests it for truth), while its column is
  \<^verbatim>\<open>NOT NULL\<close>. The foreign key \<open>usuario_responsable\<close> is held as the joined row.
  The columns \<^verbatim>\<open>recurrido\<close>, \<^verbatim>\<open>tribunal\<close>, \<^verbatim>\<open>fecha_presentacion\<close>,
  \<^verbatim>\<open>fecha_notificacion\<close>, \<^verbatim>\<open>notas\<close> and the two automatic timestamps take no part
  in the operations below and are left out.
\<close>

record caso =
  pk :: "nat option"
  tipo :: tipo_caso
  rol :: string
  recurrente :: string
  fecha_vencimiento :: "date option"
  estado :: estado_caso
  materia :: string
  usuario_responsable :: usuario
  urgente :: bool

text \<open>
  An f-string message is kept as its pieces, in order: literal text, a formatted
  integer, and a date printed by \<^verbatim>\<open>strftime("%d/%m/%Y")\<close>.
\<close>

datatype parte = Lit string | Num int | Fecha date

text \<open>\<^verbatim>\<open>Alerta\<close>. The foreign key \<open>caso\<close> is held as the primary key of the case.\<close>

record alerta =
  alerta_id :: nat
  alerta_caso :: nat
  alerta_tipo :: tipo_alerta
  mensaje :: "parte list"
  fecha_alerta :: datetime
  enviada :: bool
  fecha_envio :: "datetime option"
  leida :: bool
  enviar_email :: bool
  email_destinatario :: "string option"
  fecha_creacion :: datetime
  usuario_creador :: usuario

text \<open>\<^verbatim>\<open>MovimientoCaso\<close>.\<close>

record movimiento_caso =
  mov_id :: nat
  mov_caso :: nat
  fecha_movimiento :: datetime
  descripcion :: string
  mov_usuario :: usuario
  importante :: bool

text \<open>The store: one list of rows per table.\<close>

record db =
  casos :: "caso list"
  alertas :: "alerta list"
  movimientos :: "movimiento_caso list"

text \<open>A fresh automatic primary key: one more than the largest key in the table.\<close>

definition nuevo_id :: "nat list \<Rightarrow> nat" where
  "nuevo_id ids = Suc (fold max ids 0)"

text \<open>Python's \<^verbatim>\<open>str\<close> of a non-negative integer.\<close>

fun str_nat :: "nat \<Rightarrow> string" where
  "str_nat n = (if n < 10 then [''0123456789'' ! n]
                else str_nat (n div 10) @ [''0123456789'' ! (n mod 10)])"

declare str_nat.simps [simp del]

text \<open>
  An exception is kept as its class and its message; \<open>str_exc\<close> is Python's
  \<^verbatim>\<open>str(exc)\<close>.
\<close>

datatype excepcion =
    Http404 string
  | PermissionDenied string
  | ValidationError string
  | IntegrityError string
  | DoesNotExist string
  | ValueError string
  | Excepcion string

fun str_exc :: "excepcion \<Rightarrow> string" where
  "str_exc (Http404 m) = m"
| "str_exc (PermissionDenied m) = m"
| "str_exc (ValidationError m) = m"
| "str_exc (IntegrityError m) = m"
| "str_exc (DoesNotExist m) = m"
| "str_exc (ValueError m) = m"
| "str_exc (Excepcion m) = m"

text \<open>\<^verbatim>\<open>Alerta.objects.get(id=...)\<close> and the row behind the foreign key \<^verbatim>\<open>alerta.caso\<close>.\<close>

definition Alerta_get :: "nat \<Rightarrow> db \<Rightarrow> alerta option" where
  "Alerta_get i d = find (\<lambda>a. alerta_id a = i) (alertas d)"

definition Caso_get :: "nat \<Rightarrow> db \<Rightarrow> caso option" where
  "Caso_get k d = find (\<lambda>c. pk c = Some k) (casos d)"

text \<open>
  \<^verbatim>\<open>Alerta.objects.create(...)\<close>: the row gets a fresh key, \<^verbatim>\<open>auto_now_add\<close> stamps
  \<open>fecha_creacion\<close>, and \<open>enviada\<close>, \<open>fecha_envio\<close>, \<open>leida\<close> take their defaults.
\<close>

definition Alerta_create ::
  "datetime \<Rightarrow> nat \<Rightarrow> tipo_alerta \<Rightarrow> parte list \<Rightarrow> datetime \<Rightarrow> usuario \<Rightarrow> string option \<Rightarrow> bool
   \<Rightarrow> db \<Rightarrow> db" where
  "Alerta_create now k tp msg f_alerta creador destinatario con_email d =
     d\<lparr>alertas := alertas d @
       [\<lparr>alerta_id = nuevo_id (map alerta_id (alertas d)), alerta_caso = k, alerta_tipo = tp,
         mensaje = msg, fecha_alerta = f_alerta, enviada = False, fecha_envio = None,
         leida = False, enviar_email = con_email, email_destinatario = destinatario,
         fecha_creacion = now, usuario_creador = creador\<rparr>]\<rparr>"

text \<open>\<^verbatim>\<open>Alerta.marcar_como_enviada\<close>: both columns are written by one UPDATE of the row.\<close>

definition marcar_como_enviada :: "datetime \<Rightarrow> nat \<Rightarrow> db \<Rightarrow> db" where
  "marcar_como_enviada now i d =
     d\<lparr>alertas := map (\<lambda>a. if alerta_id a = i then a\<lparr>enviada := True, fecha_envio := Some now\<rparr> else a)
                      (alertas d)\<rparr>"

section \<open>Periodic tasks (apps/casos/tasks.py)\<close>

subsection \<open>crear_alertas_vencimiento\<close>

text \<open>
  The existence query
  \<^verbatim>\<open>Alerta.objects.filter(caso=caso, tipo='VENCIMIENTO', fecha_creacion__gte=now - 1 day)\<close>.
\<close>

definition tiene_alerta :: "datetime \<Rightarrow> nat \<Rightarrow> alerta list \<Rightarrow> bool" where
  "tiene_alerta now k as =
     (\<exists>a \<in> set as. alerta_caso a = k \<and> alerta_tipo a = VENCIMIENTO
        \<and> fecha_creacion a \<ge> now - timedelta_days 1)"

definition mensaje_vencimiento :: "int \<Rightarrow> caso \<Rightarrow> date \<Rightarrow> parte list" where
  "mensaje_vencimiento dias c fv =
     [Lit ''El caso '', Lit (rol c), Lit '' vence en '', Num dias, Lit ('' d'' @ [CHR 0xED] @ ''as (''),
      Fecha fv, Lit ''). '', Lit ''Recurrente: '', Lit (recurrente c)]"

text \<open>
  The loop over \<^verbatim>\<open>casos_proximos\<close>, with the store and \<^verbatim>\<open>contador\<close> as its state.
  A run reads the clock once: \<open>now\<close> stands for every \<^verbatim>\<open>timezone.now()\<close> of the run,
  the one behind \<^verbatim>\<open>auto_now_add\<close> included.
  A row without a primary key cannot be used in the related filter: Django raises
  \<^verbatim>\<open>ValueError\<close> there; a row without a due date has no \<^verbatim>\<open>strftime\<close>, which
  raises \<^verbatim>\<open>AttributeError\<close> (kept as a plain exception). The alerts made before an
  exception stay, the task running outside a transaction.
\<close>

fun bucle_vencimiento :: "datetime \<Rightarrow> int \<Rightarrow> caso list \<Rightarrow> db \<Rightarrow> nat \<Rightarrow> db \<times> (excepcion + nat)" where
  "bucle_vencimiento now dias [] d contador = (d, Inr contador)"
| "bucle_vencimiento now dias (c # cs) d contador =
     (case pk c of
        None \<Rightarrow> (d, Inl (ValueError ''Model instances passed to related filters must be saved.''))
      | Some k \<Rightarrow>
          if \<not> tiene_alerta now k (alertas d)
          then (case fecha_vencimiento c of
                  None \<Rightarrow> (d, Inl (Excepcion ''NoneType object has no attribute strftime''))
                | Some fv \<Rightarrow>
                    bucle_vencimiento now dias cs
                      (Alerta_create now k VENCIMIENTO (mensaje_vencimiento dias c fv)
                         (now + timedelta_minutes 30) (usuario_responsable c)
                         (Some (email (usuario_responsable c))) True d)
                      (contador + 1))
          else bucle_vencimiento now dias cs d contador)"

definition casos_proximos :: "date \<Rightarrow> db \<Rightarrow> caso list" where
  "casos_proximos fecha_limite d =
     filter (\<lambda>c. estado c = EN_TRAMITACION \<and> fecha_vencimiento c = Some fecha_limite) (casos d)"

definition crear_alertas_vencimiento :: "reloj \<Rightarrow> db \<Rightarrow> string \<times> db" where
  "crear_alertas_vencimiento r d =
     (let dias_anticipacion = 7;
          fecha_limite = hoy r + dias_anticipacion
      in case bucle_vencimiento (ahora r) dias_anticipacion (casos_proximos fecha_limite d) d 0 of
           (d', Inr contador) \<Rightarrow>
             (''Creadas '' @ str_nat contador @ '' alertas autom'' @ [CHR 0xE1] @ ''ticas'', d')
         | (d', Inl exc) \<Rightarrow> (''Error: '' @ str_exc exc, d'))"

subsection \<open>limpiar_alertas_antiguas\<close>

text \<open>
  The filter \<^verbatim>\<open>enviada=True, fecha_envio__lt=fecha_corte\<close>: a row whose
  \<^verbatim>\<open>fecha_envio\<close> is NULL does not satisfy \<^verbatim>\<open>__lt\<close>.
\<close>

definition alerta_antigua :: "datetime \<Rightarrow> alerta \<Rightarrow> bool" where
  "alerta_antigua fecha_corte a =
     (enviada a \<and> (case fecha_envio a of None \<Rightarrow> False | Some t \<Rightarrow> t < fecha_corte))"

text \<open>
  \<^verbatim>\<open>QuerySet.delete()\<close> returns the number of rows deleted first; no model refers to
  \<^verbatim>\<open>Alerta\<close>, so nothing cascades. The task returns the message
  \<^verbatim>\<open>f"Eliminadas {contador} alertas antiguas"\<close>.
\<close>

definition limpiar_alertas_antiguas :: "datetime \<Rightarrow> db \<Rightarrow> string \<times> db" where
  "limpiar_alertas_antiguas now d =
     (let fecha_corte = now - timedelta_days 90;
          eliminadas = length (filter (alerta_antigua fecha_corte) (alertas d));
          d' = d\<lparr>alertas := filter (\<lambda>a. \<not> alerta_antigua fecha_corte a) (alertas d)\<rparr>;
          contador = (if eliminadas \<noteq> 0 then eliminadas else 0)
      in (''Eliminadas '' @ str_nat contador @ '' alertas antiguas'', d'))"

subsection \<open>enviar_email_alerta\<close>

text \<open>
  \<^verbatim>\<open>get_tipo_display()\<close> of an alert, and Python's \<^verbatim>\<open>a or b\<close> on the two
  candidate recipients (\<open>None\<close> and the empty string are false).
\<close>

fun alerta_tipo_display :: "tipo_alerta \<Rightarrow> string" where
  "alerta_tipo_display VENCIMIENTO = ''Vencimiento de Plazo''"
| "alerta_tipo_display AUDIENCIA = ''Audiencia Programada''"
| "alerta_tipo_display SEGUIMIENTO = ''Seguimiento General''"
| "alerta_tipo_display NOTIFICACION = ''Notificaci'' @ [CHR 0xF3] @ ''n Recibida''"

definition destinatario_de :: "alerta \<Rightarrow> caso \<Rightarrow> string" where
  "destinatario_de a c =
     (case email_destinatario a of
        None \<Rightarrow> email (usuario_responsable c)
      | Some e \<Rightarrow> if e \<noteq> [] then e else email (usuario_responsable c))"

text \<open>One call of \<^verbatim>\<open>send_mail\<close>: the subject and the single recipient.\<close>

record correo =
  asunto :: string
  para :: string

text \<open>
  What one execution of the task body hands back to the worker: a return value, or the
  \<^verbatim>\<open>Retry\<close> raised by \<^verbatim>\<open>self.retry(countdown=..., exc=...)\<close>.
\<close>

datatype resultado_tarea = Retorna string | Reintenta nat excepcion

definition max_retries :: nat where
  "max_retries = 3"

text \<open>The handler \<^verbatim>\<open>except Exception as exc\<close>.\<close>

definition manejar_excepcion :: "nat \<Rightarrow> excepcion \<Rightarrow> resultado_tarea" where
  "manejar_excepcion retries exc =
     (if retries < max_retries then Reintenta 300 exc
      else Retorna (''Error: '' @ str_exc exc))"

text \<open>
  One execution of the task body. \<open>retries\<close> is \<^verbatim>\<open>self.request.retries\<close>; \<open>smtp\<close> is
  what \<^verbatim>\<open>send_mail(..., fail_silently=False)\<close> does in this execution: \<open>None\<close> when
  it delivers, the exception it raises otherwise. The result carries the new store and
  the calls of \<^verbatim>\<open>send_mail\<close> that were made. Rendering the two templates and the case
  URL builds text only and is taken to succeed.
\<close>

definition enviar_email_alerta ::
  "nat \<Rightarrow> excepcion option \<Rightarrow> datetime \<Rightarrow> nat \<Rightarrow> db \<Rightarrow> resultado_tarea \<times> db \<times> correo list" where
  "enviar_email_alerta retries smtp now i d =
     (case Alerta_get i d of
        None \<Rightarrow> (Retorna ''Alerta no encontrada'', d, [])
      | Some a \<Rightarrow>
          if enviada a then (Retorna ''Alerta ya enviada'', d, [])
          else
            (case Caso_get (alerta_caso a) d of
               None \<Rightarrow> (manejar_excepcion retries (DoesNotExist ''Caso matching query does not exist.''), d, [])
             | Some c \<Rightarrow>
                 let subject = ''Alerta: '' @ alerta_tipo_display (alerta_tipo a) @ '' - '' @ rol c;
                     destinatario = destinatario_de a c
                 in if destinatario = [] then (Retorna ''Sin email destinatario'', d, [])
                    else
                      (case smtp of
                         Some exc \<Rightarrow>
                           (manejar_excepcion retries exc, d,
                            [\<lparr>asunto = subject, para = destinatario\<rparr>])
                       | None \<Rightarrow>
                           (Retorna (''Email enviado exitosamente a '' @ destinatario),
                            marcar_como_enviada now i d,
                            [\<lparr>asunto = subject, para = destinatario\<rparr>]))))"

text \<open>
  The worker: it runs the body, and on \<^verbatim>\<open>Retry\<close> runs it again after the countdown
  with \<^verbatim>\<open>request.retries\<close> one higher. \<open>smtp k\<close> and \<open>reloj k\<close> are the mail
  service's answer and the clock in the execution with \<^verbatim>\<open>request.retries = k\<close>.
  The trace lists each \<^verbatim>\<open>send_mail\<close> call and each scheduled retry, in order.
\<close>

datatype evento = Envio correo | Programado nat

lemma manejar_excepcion_Reintenta:
  "manejar_excepcion retries exc = Reintenta cd e \<Longrightarrow> retries < max_retries"
  by (simp add: manejar_excepcion_def split: if_splits)

lemma enviar_email_alerta_Reintenta:
  "enviar_email_alerta retries smtp now i d = (Reintenta cd e, d', ms) \<Longrightarrow> retries < max_retries"
  by (auto simp: enviar_email_alerta_def Let_def
      split: option.splits if_splits dest: manejar_excepcion_Reintenta)

function ejecutar_tarea ::
  "(nat \<Rightarrow> excepcion option) \<Rightarrow> (nat \<Rightarrow> datetime) \<Rightarrow> nat \<Rightarrow> nat \<Rightarrow> db \<Rightarrow> evento list \<times> string \<times> db" where
  "ejecutar_tarea smtp reloj retries i d =
     (case enviar_email_alerta retries (smtp retries) (reloj retries) i d of
        (Retorna s, d', ms) \<Rightarrow> (map Envio ms, s, d')
      | (Reintenta countdown exc, d', ms) \<Rightarrow>
          (case ejecutar_tarea smtp reloj (Suc retries) i d' of
             (evs, s, d'') \<Rightarrow> (map Envio ms @ Programado countdown # evs, s, d'')))"
  by pat_completeness auto
termination
proof (relation "measure (\<lambda>(smtp, reloj, retries, i, d). Suc max_retries - retries)")
  show "wf (measure (\<lambda>(smtp, reloj, retries, i, d). Suc max_retries - retries))"
    by simp
next
  fix smtp :: "nat \<Rightarrow> excepcion option" and reloj :: "nat \<Rightarrow> datetime"
    and retries i :: nat and d :: db and x1 x2 x21 x22 x1a x2b
  assume "(x1, x2) = enviar_email_alerta retries (smtp retries) (reloj retries) i d"
    and "(x21, x22) = x2" and "x1 = Reintenta x1a x2b"
  then have "enviar_email_alerta retries (smtp retries) (reloj retries) i d = (Reintenta x1a x2b, x21, x22)"
    by simp
  then have "retries < max_retries"
    by (rule enviar_email_alerta_Reintenta)
  then show "((smtp, reloj, Suc retries, i, x21), (smtp, reloj, retries, i, d))
      \<in> measure (\<lambda>(smtp, reloj, retries, i, d). Suc max_retries - retries)"
    by simp
qed

declare ejecutar_tarea.simps [simp del]

text \<open>
  Any number of executions of the task body, one after the other, each with its own
  \<^verbatim>\<open>request.retries\<close>, mail answer, clock and alert id: the stores after each.
\<close>

fun ejecuciones :: "(nat \<times> excepcion option \<times> datetime \<times> nat) list \<Rightarrow> db \<Rightarrow> db list" where
  "ejecuciones [] d = []"
| "ejecuciones ((retries, smtp, now, i) # xs) d =
     (let d' = fst (snd (enviar_email_alerta retries smtp now i d)) in d' # ejecuciones xs d')"

definition esta_enviada :: "nat \<Rightarrow> db \<Rightarrow> bool" where
  "esta_enviada i d = (case Alerta_get i d of None \<Rightarrow> False | Some a \<Rightarrow> enviada a)"

text \<open>How often the stored flag of alert \<open>i\<close> goes from false to true along a list of stores.\<close>

fun transiciones :: "nat \<Rightarrow> db list \<Rightarrow> nat" where
  "transiciones i (d1 # d2 # ds) =
     (if \<not> esta_enviada i d1 \<and> esta_enviada i d2 then 1 else 0) + transiciones i (d2 # ds)"
| "transiciones i ds = 0"

text \<open>
  When executions overlap in time, each still writes the store only through
  \<open>marcar_como_enviada\<close>; the history of the store is then a sequence of such writes,
  in some order, each with its own clock and alert id.
\<close>

fun escrituras :: "(datetime \<times> nat) list \<Rightarrow> db \<Rightarrow> db list" where
  "escrituras [] d = []"
| "escrituras ((now, i) # ws) d =
     (let d' = marcar_como_enviada now i d in d' # escrituras ws d')"

section \<open>Signals and saving a case (apps/casos/signals.py, Caso.save)\<close>

text \<open>The lines of \<^verbatim>\<open>Caso.save\<close> before \<^verbatim>\<open>super().save()\<close>, reading \<^verbatim>\<open>date.today()\<close>.\<close>

definition Caso_save_urgente :: "date \<Rightarrow> caso \<Rightarrow> caso" where
  "Caso_save_urgente today c =
     (case fecha_vencimiento c of
        None \<Rightarrow> c
      | Some fv \<Rightarrow> let days_until_deadline = fv - today in c\<lparr>urgente := days_until_deadline \<le> 7\<rparr>)"

text \<open>The \<^verbatim>\<open>pre_save\<close> receiver, reading \<^verbatim>\<open>timezone.now().date()\<close>.\<close>

definition marcar_urgente_automatico :: "datetime \<Rightarrow> caso \<Rightarrow> caso" where
  "marcar_urgente_automatico now instance =
     (case fecha_vencimiento instance of
        None \<Rightarrow> instance
      | Some fv \<Rightarrow> let days_until = fv - datetime_date now in instance\<lparr>urgente := days_until \<le> 7\<rparr>)"

fun caso_tipo_display :: "tipo_caso \<Rightarrow> string" where
  "caso_tipo_display AMPARO = ''Recurso de Amparo''"
| "caso_tipo_display PROTECCION = ''Recurso de Protecci'' @ [CHR 0xF3] @ ''n''"
| "caso_tipo_display CDE = ''CDE (Contencioso Administrativo)''"

text \<open>
  The two \<^verbatim>\<open>post_save\<close> receivers. Each returns the store and the exception it
  raised, if any: a related row cannot be created for an instance without a primary key.
\<close>

definition crear_movimiento_inicial :: "datetime \<Rightarrow> caso \<Rightarrow> bool \<Rightarrow> db \<Rightarrow> db \<times> excepcion option" where
  "crear_movimiento_inicial now instance created d =
     (if created then
        (case pk instance of
           None \<Rightarrow> (d, Some (ValueError ''save() prohibited to prevent data loss due to unsaved related object.''))
         | Some k \<Rightarrow>
             (d\<lparr>movimientos := movimientos d @
                 [\<lparr>mov_id = nuevo_id (map mov_id (movimientos d)), mov_caso = k,
                   fecha_movimiento = now,
                   descripcion = ''Caso creado: '' @ caso_tipo_display (tipo instance) @ '' - ''
                                   @ take 100 (materia instance),
                   mov_usuario = usuario_responsable instance, importante = True\<rparr>]\<rparr>, None))
      else (d, None))"

definition mensaje_automatico :: "caso \<Rightarrow> int \<Rightarrow> date \<Rightarrow> parte list" where
  "mensaje_automatico instance days_until fv =
     [Lit ''El caso '', Lit (rol instance), Lit '' vence en '', Num days_until,
      Lit ('' d'' @ [CHR 0xED] @ ''as. ''), Lit ''Fecha de vencimiento: '', Fecha fv]"

definition crear_alerta_automatica :: "datetime \<Rightarrow> caso \<Rightarrow> bool \<Rightarrow> db \<Rightarrow> db \<times> excepcion option" where
  "crear_alerta_automatica now instance created d =
     (if \<not> created then (d, None)
      else
        (case fecha_vencimiento instance of
           None \<Rightarrow> (d, None)
         | Some fv \<Rightarrow>
             if estado instance = EN_TRAMITACION then
               (let days_until = fv - datetime_date now
                in if days_until \<le> 7 then
                     (case pk instance of
                        None \<Rightarrow> (d, Some (ValueError ''save() prohibited to prevent data loss due to unsaved related object.''))
                      | Some k \<Rightarrow>
                          (Alerta_create now k VENCIMIENTO (mensaje_automatico instance days_until fv)
                             (now + timedelta_hours 1) (usuario_responsable instance)
                             (Some (email (usuario_responsable instance))) True d, None))
                   else (d, None))
             else (d, None)))"

text \<open>
  Writing the row. The column \<^verbatim>\<open>fecha_vencimiento\<close> is \<^verbatim>\<open>NOT NULL\<close> and \<^verbatim>\<open>rol\<close> is
  \<^verbatim>\<open>unique\<close>; a violation raises \<^verbatim>\<open>IntegrityError\<close>, kept here with the name of
  the column (the wording of the message is the database's), and writes nothing. An instance
  whose key is in the table is updated, any other is inserted (with a fresh key when
  it has none). The result is the instance, the store, and whether a row was created.
  \<open>claves\<close> are the primary keys in use.
\<close>

definition claves :: "db \<Rightarrow> nat list" where
  "claves d = concat (map (\<lambda>c. case pk c of None \<Rightarrow> [] | Some k \<Rightarrow> [k]) (casos d))"

definition guardar_fila :: "caso \<Rightarrow> db \<Rightarrow> excepcion + (caso \<times> db \<times> bool)" where
  "guardar_fila c d =
     (if fecha_vencimiento c = None
      then Inl (IntegrityError ''fecha_vencimiento'')
      else if \<exists>c' \<in> set (casos d). rol c' = rol c \<and> pk c' \<noteq> pk c
      then Inl (IntegrityError ''rol'')
      else
        (case pk c of
           Some k \<Rightarrow>
             if \<exists>c' \<in> set (casos d). pk c' = Some k
             then Inr (c, d\<lparr>casos := map (\<lambda>c'. if pk c' = Some k then c else c') (casos d)\<rparr>, False)
             else Inr (c, d\<lparr>casos := casos d @ [c]\<rparr>, True)
         | None \<Rightarrow>
             let c' = c\<lparr>pk := Some (nuevo_id (claves d))\<rparr>
             in Inr (c', d\<lparr>casos := casos d @ [c']\<rparr>, True)))"

text \<open>
  \<^verbatim>\<open>Caso.save()\<close>: the override's own lines, then \<^verbatim>\<open>Model.save\<close>: the
  \<^verbatim>\<open>pre_save\<close> receiver, the write, and the \<^verbatim>\<open>post_save\<close> receivers in the order
  they were registered. The result is the instance as the call leaves it, the store,
  and the exception raised, if any.
\<close>

definition Caso_save :: "reloj \<Rightarrow> caso \<Rightarrow> db \<Rightarrow> caso \<times> db \<times> excepcion option" where
  "Caso_save r self d =
     (let self1 = Caso_save_urgente (hoy r) self;
          self2 = marcar_urgente_automatico (ahora r) self1
      in case guardar_fila self2 d of
           Inl exc \<Rightarrow> (self2, d, Some exc)
         | Inr (self3, d1, created) \<Rightarrow>
             (case crear_movimiento_inicial (ahora r) self3 created d1 of
                (d2, Some exc) \<Rightarrow> (self3, d2, Some exc)
              | (d2, None) \<Rightarrow>
                  (case crear_alerta_automatica (ahora r) self3 created d2 of
                     (d3, raised) \<Rightarrow> (self3, d3, raised))))"

section \<open>Views and forms (apps/casos/views.py, apps/casos/forms.py)\<close>

text \<open>
  \<^verbatim>\<open>marcar_alerta_leida\<close> under \<^verbatim>\<open>@login_required\<close>. The requesting user is \<open>None\<close>
  when nobody is logged in. The view answers with a redirect or raises; users are
  compared by primary key, as Django compares model instances.
\<close>

datatype respuesta = RedirectLogin | Redirect string

text \<open>\<^verbatim>\<open>alerta.leida = True; alerta.save(update_fields=['leida'])\<close>: one UPDATE of the row.\<close>

definition marcar_leida :: "nat \<Rightarrow> db \<Rightarrow> db" where
  "marcar_leida i d = d\<lparr>alertas := map (\<lambda>x. if alerta_id x = i then x\<lparr>leida := True\<rparr> else x) (alertas d)\<rparr>"

definition marcar_alerta_leida :: "usuario option \<Rightarrow> nat \<Rightarrow> db \<Rightarrow> (excepcion + respuesta) \<times> db" where
  "marcar_alerta_leida request_user pk_alerta d =
     (case request_user of
        None \<Rightarrow> (Inr RedirectLogin, d)
      | Some u \<Rightarrow>
          (case Alerta_get pk_alerta d of
             None \<Rightarrow> (Inl (Http404 ''No Alerta matches the given query.''), d)
           | Some a \<Rightarrow>
               (case Caso_get (alerta_caso a) d of
                  None \<Rightarrow> (Inl (DoesNotExist ''Caso matching query does not exist.''), d)
                | Some c \<Rightarrow>
                    if \<not> is_staff u \<and> user_id (usuario_responsable c) \<noteq> user_id u
                    then (Inl (Http404 ''No tienes permisos para esta alerta''), d)
                    else (Inr (Redirect ''Casos:alertas''), marcar_leida pk_alerta d))))"

text \<open>
  \<^verbatim>\<open>str.strip()\<close> and \<^verbatim>\<open>str.upper()\<close> are the interpreter's: which characters are
  whitespace and what the upper case of a text is come from its Unicode tables, which
  are no part of the sources. Both are parameters: \<open>isspace\<close> is the whitespace test
  of \<^verbatim>\<open>strip\<close>, \<open>upper\<close> is \<^verbatim>\<open>str.upper\<close>. \<^verbatim>\<open>strip\<close> itself removes the
  whitespace characters at both ends.
\<close>

definition strip :: "(char \<Rightarrow> bool) \<Rightarrow> string \<Rightarrow> string" where
  "strip isspace s = rev (dropWhile isspace (rev (dropWhile isspace s)))"

text \<open>
  \<^verbatim>\<open>CasoForm.clean_rol\<close>. \<open>instance\<close> is \<^verbatim>\<open>self.instance\<close>, \<open>rol_in\<close> is
  \<^verbatim>\<open>self.cleaned_data.get('rol')\<close>; the test \<^verbatim>\<open>if self.instance.pk\<close> is false for
  \<open>None\<close> and for 0.
\<close>

definition clean_rol ::
  "(char \<Rightarrow> bool) \<Rightarrow> (string \<Rightarrow> string) \<Rightarrow> caso \<Rightarrow> string option \<Rightarrow> db \<Rightarrow> excepcion + string option" where
  "clean_rol isspace upper instance rol_in d =
     (case rol_in of
        None \<Rightarrow> Inr None
      | Some r \<Rightarrow>
          if r = [] then Inr (Some r)
          else
            (let rol' = upper (strip isspace r);
                 queryset = filter (\<lambda>c. rol c = rol') (casos d);
                 queryset' = (case pk instance of
                                None \<Rightarrow> queryset
                              | Some k \<Rightarrow> if k \<noteq> 0 then filter (\<lambda>c. pk c \<noteq> Some k) queryset
                                          else queryset)
             in if queryset' \<noteq> []
                then Inl (ValidationError (''Ya existe un caso con el rol '' @ [CHR 0x27] @ rol' @ [CHR 0x27]))
                else Inr (Some rol')))"

section \<open>Notions used in the statements\<close>

text \<open>A stored case for which the existence query finds nothing.\<close>

definition sin_alerta :: "datetime \<Rightarrow> alerta list \<Rightarrow> caso \<Rightarrow> bool" where
  "sin_alerta now as c = (case pk c of None \<Rightarrow> False | Some k \<Rightarrow> \<not> tiene_alerta now k as)"

text \<open>The row that \<open>crear_alertas_vencimiento\<close> creates for case \<open>c\<close> at time \<open>now\<close>.\<close>

definition creada_por_tarea :: "datetime \<Rightarrow> caso \<Rightarrow> alerta \<Rightarrow> bool" where
  "creada_por_tarea now c a =
     (pk c = Some (alerta_caso a) \<and> alerta_tipo a = VENCIMIENTO
      \<and> fecha_alerta a = now + timedelta_minutes 30
      \<and> email_destinatario a = Some (email (usuario_responsable c))
      \<and> enviar_email a \<and> \<not> enviada a \<and> fecha_envio a = None \<and> \<not> leida a
      \<and> fecha_creacion a = now \<and> usuario_creador a = usuario_responsable c)"

text \<open>The number of \<^verbatim>\<open>VENCIMIENTO\<close> alerts stored for the case with key \<open>k\<close>.\<close>

definition n_vencimiento :: "nat \<Rightarrow> db \<Rightarrow> nat" where
  "n_vencimiento k d = length (filter (\<lambda>a. alerta_caso a = k \<and> alerta_tipo a = VENCIMIENTO) (alertas d))"

text \<open>
  The cases a run picks: in process, due exactly 7 days after \<^verbatim>\<open>date.today()\<close>, and
  without a \<^verbatim>\<open>VENCIMIENTO\<close> alert created in the last 24 hours.
\<close>

definition vence_en_plazo :: "reloj \<Rightarrow> db \<Rightarrow> caso \<Rightarrow> bool" where
  "vence_en_plazo r d c =
     (estado c = EN_TRAMITACION \<and> fecha_vencimiento c = Some (hoy r + 7)
      \<and> sin_alerta (ahora r) (alertas d) c)"

text \<open>The rows that the two \<^verbatim>\<open>post_save\<close> receivers create for a new case with key \<open>k\<close>.\<close>

definition movimiento_inicial :: "datetime \<Rightarrow> nat \<Rightarrow> caso \<Rightarrow> db \<Rightarrow> movimiento_caso" where
  "movimiento_inicial now k c d =
     \<lparr>mov_id = nuevo_id (map mov_id (movimientos d)), mov_caso = k, fecha_movimiento = now,
      descripcion = ''Caso creado: '' @ caso_tipo_display (tipo c) @ '' - '' @ take 100 (materia c),
      mov_usuario = usuario_responsable c, importante = True\<rparr>"

definition alerta_inicial :: "datetime \<Rightarrow> nat \<Rightarrow> caso \<Rightarrow> date \<Rightarrow> db \<Rightarrow> alerta" where
  "alerta_inicial now k c fv d =
     \<lparr>alerta_id = nuevo_id (map alerta_id (alertas d)), alerta_caso = k, alerta_tipo = VENCIMIENTO,
      mensaje = mensaje_automatico c (fv - datetime_date now) fv,
      fecha_alerta = now + timedelta_hours 1, enviada = False, fecha_envio = None, leida = False,
      enviar_email = True, email_destinatario = Some (email (usuario_responsable c)),
      fecha_creacion = now, usuario_creador = usuario_responsable c\<rparr>"

text \<open>The class of the exception a view raised.\<close>

fun es_Http404 :: "excepcion + 'a \<Rightarrow> bool" where
  "es_Http404 (Inl (Http404 m)) = True"
| "es_Http404 r = False"

fun es_PermissionDenied :: "excepcion + 'a \<Rightarrow> bool" where
  "es_PermissionDenied (Inl (PermissionDenied m)) = True"
| "es_PermissionDenied r = False"

text \<open>
  Another case holds the docket \<open>r\<close>: a stored case other than the one being edited
  (the instance's own row is left out only when its key is true in Python's sense).
\<close>

definition rol_en_uso :: "caso \<Rightarrow> string \<Rightarrow> db \<Rightarrow> bool" where
  "rol_en_uso instance r d =
     (\<exists>c \<in> set (casos d). rol c = r
        \<and> (case pk instance of None \<Rightarrow> True | Some k \<Rightarrow> k = 0 \<or> pk c \<noteq> Some k))"

section \<open>Sample data\<close>

definition ana :: usuario where
  "ana = \<lparr>user_id = 1, email = ''ana@estudio.cl'', is_staff = False\<rparr>"

definition beto :: usuario where
  "beto = \<lparr>user_id = 2, email = [], is_staff = False\<rparr>"

definition carla :: usuario where
  "carla = \<lparr>user_id = 3, email = ''carla@estudio.cl'', is_staff = True\<rparr>"

definition caso_de :: "nat option \<Rightarrow> string \<Rightarrow> date \<Rightarrow> estado_caso \<Rightarrow> usuario \<Rightarrow> caso" where
  "caso_de k r fv e u =
     \<lparr>pk = k, tipo = AMPARO, rol = r, recurrente = ''Juan Soto'', fecha_vencimiento = Some fv,
      estado = e, materia = ''Despido injustificado'', usuario_responsable = u, urgente = False\<rparr>"

definition alerta_de :: "nat \<Rightarrow> nat \<Rightarrow> datetime \<Rightarrow> bool \<Rightarrow> datetime option \<Rightarrow> alerta" where
  "alerta_de i k creada env f_envio =
     \<lparr>alerta_id = i, alerta_caso = k, alerta_tipo = VENCIMIENTO, mensaje = [Lit ''Plazo''],
      fecha_alerta = creada, enviada = env, fecha_envio = f_envio, leida = False,
      enviar_email = True, email_destinatario = None, fecha_creacion = creada,
      usuario_creador = ana\<rparr>"

text \<open>Day 100 on the time line; one case of ana's due on day 107 and one of beto's.\<close>

definition dia_100 :: reloj where
  "dia_100 = \<lparr>hoy = 100, ahora = timedelta_days 100\<rparr>"

definition db_casos :: db where
  "db_casos =
     \<lparr>casos = [caso_de (Some 1) ''C-1-2024'' 107 EN_TRAMITACION ana,
               caso_de (Some 2) ''C-2-2024'' 120 EN_TRAMITACION beto],
      alertas = [], movimientos = []\<rparr>"

text \<open>Three alerts of case 1: sent on day 5, sent on day 50, and never sent.\<close>

definition db_alertas :: db where
  "db_alertas =
     db_casos\<lparr>alertas :=
       [alerta_de 1 1 (timedelta_days 5) True (Some (timedelta_days 5)),
        alerta_de 2 1 (timedelta_days 50) True (Some (timedelta_days 50)),
        alerta_de 3 1 (timedelta_days 1) False None]\<rparr>"

text \<open>Three hours later on day 100, and a store where case 1 got an alert two hours before.\<close>

definition dia_100_tarde :: reloj where
  "dia_100_tarde = \<lparr>hoy = 100, ahora = timedelta_days 100 + timedelta_hours 3\<rparr>"

definition db_reciente :: db where
  "db_reciente = db_casos\<lparr>alertas := [alerta_de 1 1 (timedelta_days 100 - timedelta_hours 2) False None]\<rparr>"

text \<open>An unsent alert of case 2, whose responsible user has no email; a failing mail service.\<close>

definition db_sin_correo :: db where
  "db_sin_correo = db_casos\<lparr>alertas := [alerta_de 4 2 (timedelta_days 99) False None]\<rparr>"

definition falla_smtp :: excepcion where
  "falla_smtp = Excepcion ''Connection refused''"

text \<open>An unsaved case due on day 105, and the same instance without a due date and flagged urgent.\<close>

definition caso_nuevo :: caso where
  "caso_nuevo = caso_de None ''C-9-2024'' 105 EN_TRAMITACION ana"


text \<open>
  A whitespace test and an upper-casing for the samples: on the characters with code
  below 256 they are \<^verbatim>\<open>str.isspace\<close> and, wherever the upper case has a code below
  256, \<^verbatim>\<open>str.upper\<close> (which works character by character; the sharp s becomes SS).
\<close>

definition espacio_latin1 :: "char \<Rightarrow> bool" where
  "espacio_latin1 ch = (of_char ch \<in> {9, 10, 11, 12, 13, 28, 29, 30, 31, 32, 133, 160 :: nat})"

definition mayus_latin1_car :: "char \<Rightarrow> string" where
  "mayus_latin1_car ch =
     (let n = of_char ch :: nat
      in if (97 \<le> n \<and> n \<le> 122) \<or> (224 \<le> n \<and> n \<le> 254 \<and> n \<noteq> 247) then [char_of (n - 32)]
         else if n = 223 then ''SS''
         else [ch])"

definition mayus_latin1 :: "string \<Rightarrow> string" where
  "mayus_latin1 s = concat (map mayus_latin1_car s)"

section \<open>Auxiliary lemmas\<close>

lemma tiene_alerta_append:
  "tiene_alerta now k (as @ bs) = (tiene_alerta now k as \<or> tiene_alerta now k bs)"
  by (auto simp: tiene_alerta_def)

lemma sin_alerta_otro:
  assumes "pk c \<noteq> Some k"
  shows "sin_alerta now (alertas (Alerta_create t k tp msg fa u e b d)) c = sin_alerta now (alertas d) c"
  using assms by (auto simp: sin_alerta_def Alerta_create_def tiene_alerta_def split: option.splits)

lemma bucle_vencimiento_nuevas:
  assumes "\<forall>c \<in> set cs. pk c \<noteq> None \<and> fecha_vencimiento c \<noteq> None" and "distinct (map pk cs)"
  shows "\<exists>nuevas. bucle_vencimiento now dias cs d n
            = (d\<lparr>alertas := alertas d @ nuevas\<rparr>, Inr (n + length nuevas))
         \<and> list_all2 (\<lambda>a c. creada_por_tarea now c a) nuevas (filter (sin_alerta now (alertas d)) cs)"
  using assms
proof (induction cs arbitrary: d n)
  case Nil
  then show ?case by simp
next
  case (Cons c cs)
  from Cons.prems obtain k fv where k: "pk c = Some k" and fv: "fecha_vencimiento c = Some fv"
    by auto
  have rest: "\<forall>c \<in> set cs. pk c \<noteq> None \<and> fecha_vencimiento c \<noteq> None" "distinct (map pk cs)"
    using Cons.prems by simp_all
  have others: "\<forall>c' \<in> set cs. pk c' \<noteq> Some k"
    using Cons.prems(2) k by (auto simp: image_iff)
  show ?case
  proof (cases "tiene_alerta now k (alertas d)")
    case True
    have step: "bucle_vencimiento now dias (c # cs) d n = bucle_vencimiento now dias cs d n"
      using True k by simp
    have skip: "filter (sin_alerta now (alertas d)) (c # cs) = filter (sin_alerta now (alertas d)) cs"
      using True k by (simp add: sin_alerta_def)
    show ?thesis
      unfolding step skip by (rule Cons.IH [OF rest])
  next
    case False
    let ?d1 = "Alerta_create now k VENCIMIENTO (mensaje_vencimiento dias c fv)
                 (now + timedelta_minutes 30) (usuario_responsable c)
                 (Some (email (usuario_responsable c))) True d"
    define a where "a = \<lparr>alerta_id = nuevo_id (map alerta_id (alertas d)), alerta_caso = k,
        alerta_tipo = VENCIMIENTO, mensaje = mensaje_vencimiento dias c fv,
        fecha_alerta = now + timedelta_minutes 30, enviada = False, fecha_envio = None,
        leida = False, enviar_email = True,
        email_destinatario = Some (email (usuario_responsable c)),
        fecha_creacion = now, usuario_creador = usuario_responsable c\<rparr>"
    have d1: "?d1 = d\<lparr>alertas := alertas d @ [a]\<rparr>"
      by (simp add: Alerta_create_def a_def)
    have a: "creada_por_tarea now c a"
      by (simp add: creada_por_tarea_def a_def k)
    from Cons.IH [OF rest, of ?d1 "n + 1"] obtain nuevas where
      run: "bucle_vencimiento now dias cs ?d1 (n + 1) = (?d1\<lparr>alertas := alertas ?d1 @ nuevas\<rparr>, Inr (n + 1 + length nuevas))"
      and l2: "list_all2 (\<lambda>a c. creada_por_tarea now c a) nuevas (filter (sin_alerta now (alertas ?d1)) cs)"
      by blast
    have same: "filter (sin_alerta now (alertas ?d1)) cs = filter (sin_alerta now (alertas d)) cs"
      using others by (intro filter_cong refl sin_alerta_otro) auto
    have "bucle_vencimiento now dias (c # cs) d n
            = (d\<lparr>alertas := alertas d @ (a # nuevas)\<rparr>, Inr (n + length (a # nuevas)))"
      using False k fv run by (simp add: d1)
    moreover have "filter (sin_alerta now (alertas d)) (c # cs) = c # filter (sin_alerta now (alertas d)) cs"
      using False k by (simp add: sin_alerta_def)
    then have "list_all2 (\<lambda>a c. creada_por_tarea now c a) (a # nuevas)
        (filter (sin_alerta now (alertas d)) (c # cs))"
      using a l2 same by simp
    ultimately show ?thesis by blast
  qed
qed

lemma list_all2_set1: "list_all2 R xs ys \<Longrightarrow> x \<in> set xs \<Longrightarrow> \<exists>y \<in> set ys. R x y"
  by (induction rule: list_all2_induct) auto

lemma list_all2_set2: "list_all2 R xs ys \<Longrightarrow> y \<in> set ys \<Longrightarrow> \<exists>x \<in> set xs. R x y"
  by (induction rule: list_all2_induct) auto

lemma list_all2_filter_length:
  "list_all2 R xs ys \<Longrightarrow> (\<And>x y. R x y \<Longrightarrow> P x = Q y)
     \<Longrightarrow> length (filter P xs) = length (filter Q ys)"
  by (induction rule: list_all2_induct) auto

lemma distinct_map_filter_le1:
  "distinct (map f xs) \<Longrightarrow> length (filter (\<lambda>x. f x = v) xs) \<le> 1"
proof (induction xs)
  case Nil
  then show ?case by simp
next
  case (Cons x xs)
  show ?case
  proof (cases "f x = v")
    case True
    with Cons.prems have "\<forall>y \<in> set xs. f y \<noteq> v" by (auto simp: image_iff)
    then have "filter (\<lambda>x. f x = v) xs = []" by (simp add: filter_empty_conv)
    with True show ?thesis by simp
  next
    case False
    with Cons show ?thesis by simp
  qed
qed

lemma crear_alertas_vencimiento_nuevas:
  assumes "\<forall>c \<in> set (casos d). pk c \<noteq> None" and "distinct (map pk (casos d))"
  shows "\<exists>nuevas. crear_alertas_vencimiento r d =
           (''Creadas '' @ str_nat (length nuevas) @ '' alertas autom'' @ [CHR 0xE1] @ ''ticas'',
            d\<lparr>alertas := alertas d @ nuevas\<rparr>)
         \<and> list_all2 (\<lambda>a c. creada_por_tarea (ahora r) c a) nuevas (filter (vence_en_plazo r d) (casos d))"
proof -
  let ?cs = "casos_proximos (hoy r + 7) d"
  have 1: "\<forall>c \<in> set ?cs. pk c \<noteq> None \<and> fecha_vencimiento c \<noteq> None"
    using assms(1) by (simp add: casos_proximos_def)
  have 2: "distinct (map pk ?cs)"
    using assms(2) by (simp add: casos_proximos_def distinct_map_filter)
  from bucle_vencimiento_nuevas [OF 1 2, of "ahora r" 7 d 0] obtain nuevas where
    run: "bucle_vencimiento (ahora r) 7 ?cs d 0 = (d\<lparr>alertas := alertas d @ nuevas\<rparr>, Inr (length nuevas))"
    and l2: "list_all2 (\<lambda>a c. creada_por_tarea (ahora r) c a) nuevas
               (filter (sin_alerta (ahora r) (alertas d)) ?cs)"
    by auto
  have "filter (sin_alerta (ahora r) (alertas d)) ?cs = filter (vence_en_plazo r d) (casos d)"
    unfolding casos_proximos_def filter_filter
    by (rule filter_cong) (auto simp: vence_en_plazo_def)
  with l2 have "list_all2 (\<lambda>a c. creada_por_tarea (ahora r) c a) nuevas (filter (vence_en_plazo r d) (casos d))"
    by simp
  moreover have "crear_alertas_vencimiento r d =
           (''Creadas '' @ str_nat (length nuevas) @ '' alertas autom'' @ [CHR 0xE1] @ ''ticas'',
            d\<lparr>alertas := alertas d @ nuevas\<rparr>)"
    by (simp add: crear_alertas_vencimiento_def run)
  ultimately show ?thesis by blast
qed

lemma n_vencimiento_nuevas:
  assumes "list_all2 (\<lambda>a c. creada_por_tarea now c a) nuevas cs"
  shows "n_vencimiento k (d\<lparr>alertas := alertas d @ nuevas\<rparr>)
           = n_vencimiento k d + length (filter (\<lambda>c. pk c = Some k) cs)"
proof -
  have "length (filter (\<lambda>a. alerta_caso a = k \<and> alerta_tipo a = VENCIMIENTO) nuevas)
          = length (filter (\<lambda>c. pk c = Some k) cs)"
    using assms by (rule list_all2_filter_length) (auto simp: creada_por_tarea_def)
  then show ?thesis by (simp add: n_vencimiento_def)
qed

lemma crear_alertas_vencimiento_db_casos:
  "crear_alertas_vencimiento dia_100 db_casos =
     (''Creadas 1 alertas autom'' @ [CHR 0xE1] @ ''ticas'',
      db_casos\<lparr>alertas :=
        [\<lparr>alerta_id = 1, alerta_caso = 1, alerta_tipo = VENCIMIENTO,
          mensaje = mensaje_vencimiento 7 (caso_de (Some 1) ''C-1-2024'' 107 EN_TRAMITACION ana) 107,
          fecha_alerta = timedelta_days 100 + timedelta_minutes 30, enviada = False,
          fecha_envio = None, leida = False, enviar_email = True,
          email_destinatario = Some ''ana@estudio.cl'', fecha_creacion = timedelta_days 100,
          usuario_creador = ana\<rparr>]\<rparr>)"
  by (simp add: crear_alertas_vencimiento_def casos_proximos_def db_casos_def caso_de_def
      dia_100_def tiene_alerta_def Alerta_create_def nuevo_id_def str_nat.simps ana_def)

lemma find_map_update:
  assumes "\<And>a. f (g a) = f a"
  shows "find (\<lambda>a. f a = j) (map (\<lambda>a. if f a = i then g a else a) xs)
           = map_option (\<lambda>a. if f a = i then g a else a) (find (\<lambda>a. f a = j) xs)"
  by (induction xs) (simp_all add: assms)

lemma Alerta_get_marcar_como_enviada:
  "Alerta_get j (marcar_como_enviada now i d) =
     map_option (\<lambda>a. if alerta_id a = i then a\<lparr>enviada := True, fecha_envio := Some now\<rparr> else a)
       (Alerta_get j d)"
  unfolding Alerta_get_def marcar_como_enviada_def
  using find_map_update [of alerta_id "\<lambda>a. a\<lparr>enviada := True, fecha_envio := Some now\<rparr>" j i "alertas d"]
  by simp

lemma Alerta_get_id: "Alerta_get i d = Some a \<Longrightarrow> alerta_id a = i"
  unfolding Alerta_get_def by (auto simp: find_Some_iff)

lemma esta_enviada_marcar_como_enviada:
  "esta_enviada j d \<Longrightarrow> esta_enviada j (marcar_como_enviada now i d)"
  by (auto simp: esta_enviada_def Alerta_get_marcar_como_enviada split: option.splits)

lemma enviar_email_alerta_store:
  "fst (snd (enviar_email_alerta retries smtp now i d)) = d
   \<or> (\<not> esta_enviada i d \<and> smtp = None
       \<and> fst (snd (enviar_email_alerta retries smtp now i d)) = marcar_como_enviada now i d)"
  by (auto simp: enviar_email_alerta_def esta_enviada_def Let_def split: option.splits)

lemma esta_enviada_enviar_email_alerta:
  "esta_enviada j d \<Longrightarrow> esta_enviada j (fst (snd (enviar_email_alerta retries smtp now i d)))"
  using enviar_email_alerta_store [of retries smtp now i d]
  by (auto simp: esta_enviada_marcar_como_enviada)

lemma transiciones_enviada:
  "esta_enviada j d \<Longrightarrow> transiciones j (d # ejecuciones xs d) = 0"
proof (induction xs arbitrary: d)
  case Nil
  then show ?case by simp
next
  case (Cons x xs)
  obtain retries smtp now i where x: "x = (retries, smtp, now, i)"
    by (cases x) auto
  let ?d' = "fst (snd (enviar_email_alerta retries smtp now i d))"
  have "esta_enviada j ?d'"
    using Cons.prems by (rule esta_enviada_enviar_email_alerta)
  from Cons.IH [OF this] Cons.prems show ?case
    by (simp add: x Let_def)
qed

lemma transiciones_le_1: "transiciones j (d # ejecuciones xs d) \<le> 1"
proof (induction xs arbitrary: d)
  case Nil
  then show ?case by simp
next
  case (Cons x xs)
  obtain retries smtp now i where x: "x = (retries, smtp, now, i)"
    by (cases x) auto
  let ?d' = "fst (snd (enviar_email_alerta retries smtp now i d))"
  show ?case
  proof (cases "esta_enviada j ?d'")
    case True
    from transiciones_enviada [OF True] show ?thesis
      by (simp add: x Let_def)
  next
    case False
    with Cons.IH [of ?d'] show ?thesis
      by (simp add: x Let_def)
  qed
qed

lemma transiciones_escrituras_enviada:
  "esta_enviada j d \<Longrightarrow> transiciones j (d # escrituras ws d) = 0"
proof (induction ws arbitrary: d)
  case Nil
  then show ?case by simp
next
  case (Cons w ws)
  obtain now i where w: "w = (now, i)"
    by (cases w) auto
  have "esta_enviada j (marcar_como_enviada now i d)"
    using Cons.prems by (rule esta_enviada_marcar_como_enviada)
  from Cons.IH [OF this] Cons.prems show ?case
    by (simp add: w Let_def)
qed

lemma transiciones_escrituras_le_1: "transiciones j (d # escrituras ws d) \<le> 1"
proof (induction ws arbitrary: d)
  case Nil
  then show ?case by simp
next
  case (Cons w ws)
  obtain now i where w: "w = (now, i)"
    by (cases w) auto
  show ?case
  proof (cases "esta_enviada j (marcar_como_enviada now i d)")
    case True
    from transiciones_escrituras_enviada [OF True] show ?thesis
      by (simp add: w Let_def)
  next
    case False
    with Cons.IH [of "marcar_como_enviada now i d"] show ?thesis
      by (simp add: w Let_def)
  qed
qed

lemma le_fold_max: "x \<in> set xs \<Longrightarrow> x \<le> fold max xs (a::nat)"
proof (induction xs arbitrary: a)
  case Nil
  then show ?case by simp
next
  case (Cons y ys)
  have mono: "b \<le> fold max ys b" for b :: nat
    by (induction ys arbitrary: b) (auto intro: order_trans [OF max.cobounded2])
  show ?case
  proof (cases "x = y")
    case True
    have "y \<le> max y a" by simp
    also have "\<dots> \<le> fold max ys (max y a)" by (rule mono)
    finally show ?thesis using True by simp
  next
    case False
    with Cons show ?thesis by simp
  qed
qed

lemma nuevo_id_fresh: "nuevo_id ids \<notin> set ids"
proof
  assume "nuevo_id ids \<in> set ids"
  from le_fold_max [OF this, of 0] show False by (simp add: nuevo_id_def)
qed


lemma Alerta_get_marcar_leida:
  "Alerta_get j (marcar_leida i d) =
     map_option (\<lambda>a. if alerta_id a = i then a\<lparr>leida := True\<rparr> else a) (Alerta_get j d)"
  unfolding Alerta_get_def marcar_leida_def
  using find_map_update [of alerta_id "\<lambda>a. a\<lparr>leida := True\<rparr>" j i "alertas d"]
  by simp









lemma strip_pad:
  assumes "\<forall>ch \<in> set ws1. P ch" and "\<forall>ch \<in> set ws2. P ch"
  shows "strip P (ws1 @ s @ ws2) = strip P s"
proof -
  have 1: "dropWhile P (ws1 @ s @ ws2) = dropWhile P (s @ ws2)"
    using assms(1) by (simp add: dropWhile_append)
  show ?thesis
  proof (cases "\<forall>ch \<in> set s. P ch")
    case True
    with assms(2) have e: "dropWhile P (s @ ws2) = []" "dropWhile P s = []"
      by simp_all
    show ?thesis unfolding strip_def 1 e by simp
  next
    case False
    then have 2: "dropWhile P (s @ ws2) = dropWhile P s @ ws2"
      by (auto simp: dropWhile_append)
    have "dropWhile P (rev ws2 @ rev (dropWhile P s)) = dropWhile P (rev (dropWhile P s))"
      using assms(2) by (simp add: dropWhile_append)
    then show ?thesis
      by (simp add: strip_def 1 2)
  qed
qed

lemma strip_decompose:
  "\<exists>ws1 ws2. r = ws1 @ strip P r @ ws2 \<and> (\<forall>ch \<in> set ws1 \<union> set ws2. P ch)"
proof -
  define t where "t = dropWhile P r"
  define v where "v = rev t"
  have r: "r = takeWhile P r @ t" by (simp add: t_def)
  have "rev (dropWhile P v) @ rev (takeWhile P v) = rev (takeWhile P v @ dropWhile P v)"
    by (simp only: rev_append)
  also have "\<dots> = rev v" by (simp only: takeWhile_dropWhile_id)
  also have "\<dots> = t" by (simp add: v_def)
  finally have t: "t = rev (dropWhile P v) @ rev (takeWhile P v)" by (rule sym)
  have s: "strip P r = rev (dropWhile P v)"
    by (simp add: strip_def v_def t_def)
  have "r = takeWhile P r @ strip P r @ rev (takeWhile P v)"
    using r t s by simp
  moreover have "\<forall>ch \<in> set (takeWhile P r) \<union> set (rev (takeWhile P v)). P ch"
    by (auto dest: set_takeWhileD)
  ultimately show ?thesis by blast
qed

lemma strip_ends:
  assumes "strip P r \<noteq> []"
  shows "\<not> P (hd (strip P r)) \<and> \<not> P (last (strip P r))"
proof -
  define t where "t = dropWhile P r"
  define v where "v = rev t"
  define u where "u = dropWhile P v"
  have s: "strip P r = rev u"
    by (simp add: strip_def u_def v_def t_def)
  from assms s have u: "u \<noteq> []" by simp
  then have v: "v \<noteq> []" by (auto simp: u_def)
  then have t: "t \<noteq> []" by (simp add: v_def)
  have 1: "last (strip P r) = hd u" using u by (simp add: s last_rev)
  have 2: "\<not> P (hd u)" using u unfolding u_def by (rule hd_dropWhile)
  have 3: "hd (strip P r) = last u" using u by (simp add: s hd_rev)
  have "last (takeWhile P v @ u) = last u" using u by simp
  moreover have "takeWhile P v @ u = v" by (simp only: u_def takeWhile_dropWhile_id)
  ultimately have "last v = last u" by simp
  then have 4: "last u = hd t" using t by (simp add: v_def last_rev)
  have 5: "\<not> P (hd t)" using t unfolding t_def by (rule hd_dropWhile)
  from 1 2 3 4 5 show ?thesis by simp
qed

lemma list_all2_dropWhile:
  assumes "list_all2 R xs ys" and "\<And>a b. R a b \<Longrightarrow> P a = P b"
  shows "list_all2 R (dropWhile P xs) (dropWhile P ys)"
  using assms(1) by (induction rule: list_all2_induct) (auto dest: assms(2))

lemma list_all2_strip:
  assumes "list_all2 R xs ys" and "\<And>a b. R a b \<Longrightarrow> P a = P b"
  shows "list_all2 R (strip P xs) (strip P ys)"
proof -
  have "list_all2 R (dropWhile P xs) (dropWhile P ys)"
    using assms by (rule list_all2_dropWhile)
  then have "list_all2 R (rev (dropWhile P xs)) (rev (dropWhile P ys))"
    by simp
  then have "list_all2 R (dropWhile P (rev (dropWhile P xs))) (dropWhile P (rev (dropWhile P ys)))"
    using assms(2) by (rule list_all2_dropWhile)
  then show ?thesis
    by (simp add: strip_def)
qed

lemma concat_map_list_all2:
  "list_all2 (\<lambda>a b. f a = f b) xs ys \<Longrightarrow> concat (map f xs) = concat (map f ys)"
  by (induction rule: list_all2_induct) simp_all

lemma letra_no_espacio:
  fixes n :: nat
  assumes "(97 \<le> n \<and> n \<le> 122) \<or> (224 \<le> n \<and> n \<le> 254 \<and> n \<noteq> 247)"
  shows "n \<notin> {9, 10, 11, 12, 13, 28, 29, 30, 31, 32, 133, 160}"
    and "n - 32 \<notin> {9, 10, 11, 12, 13, 28, 29, 30, 31, 32, 133, 160}"
  using assms by simp_all arith+

lemma mayus_latin1_car_de_espacio: "espacio_latin1 a \<Longrightarrow> mayus_latin1_car a = [a]"
  using letra_no_espacio(1) [of "of_char a"]
  by (auto simp: espacio_latin1_def mayus_latin1_car_def Let_def)

lemma mayus_latin1_car_sin_espacio:
  assumes "\<not> espacio_latin1 a" and "x \<in> set (mayus_latin1_car a)"
  shows "\<not> espacio_latin1 x"
proof -
  define n where "n = (of_char a :: nat)"
  have lt: "n < 256" by (simp add: n_def)
  have up: "mayus_latin1_car a =
      (if (97 \<le> n \<and> n \<le> 122) \<or> (224 \<le> n \<and> n \<le> 254 \<and> n \<noteq> 247) then [char_of (n - 32)]
       else if n = 223 then ''SS'' else [a])"
    by (simp add: mayus_latin1_car_def Let_def n_def)
  show ?thesis
  proof (cases "(97 \<le> n \<and> n \<le> 122) \<or> (224 \<le> n \<and> n \<le> 254 \<and> n \<noteq> 247)")
    case True
    then have "mayus_latin1_car a = [char_of (n - 32)]"
      unfolding up by (rule if_P)
    with assms(2) have x: "x = char_of (n - 32)" by simp
    have "(of_char x :: nat) = n - 32" using lt by (simp add: x)
    with letra_no_espacio(2) [OF True] show ?thesis
      by (simp only: espacio_latin1_def not_False_eq_True)
  next
    case False
    show ?thesis
    proof (cases "n = 223")
      case True
      with False have "mayus_latin1_car a = ''SS''"
        unfolding up by simp
      with assms(2) have "x = CHR ''S''" by simp
      then show ?thesis by (simp add: espacio_latin1_def)
    next
      case n: False
      with False have "mayus_latin1_car a = [a]"
        unfolding up by (simp only: if_False)
      with assms show ?thesis by simp
    qed
  qed
qed

lemma mayus_latin1_car_espacio:
  assumes "mayus_latin1_car a = mayus_latin1_car b"
  shows "espacio_latin1 a = espacio_latin1 b"
proof (cases "espacio_latin1 a")
  case True
  then have "mayus_latin1_car b = [a]"
    using assms mayus_latin1_car_de_espacio [of a] by simp
  then have "a \<in> set (mayus_latin1_car b)" by simp
  with True mayus_latin1_car_sin_espacio [of b a] show ?thesis by blast
next
  case False
  show ?thesis
  proof (cases "espacio_latin1 b")
    case True
    then have "mayus_latin1_car a = [b]"
      using assms mayus_latin1_car_de_espacio [of b] by simp
    then have "b \<in> set (mayus_latin1_car a)" by simp
    with True mayus_latin1_car_sin_espacio [of a b] False show ?thesis by blast
  next
    case b: False
    with False show ?thesis by simp
  qed
qed

lemma clean_rol_body:
  assumes "s \<noteq> []"
  shows "clean_rol isspace upper instance (Some s) d =
      (if rol_en_uso instance (upper (strip isspace s)) d
       then Inl (ValidationError (''Ya existe un caso con el rol '' @ [CHR 0x27]
                                   @ upper (strip isspace s) @ [CHR 0x27]))
       else Inr (Some (upper (strip isspace s))))"
proof -
  let ?q = "filter (\<lambda>c. rol c = upper (strip isspace s)) (casos d)"
  let ?q' = "case pk instance of None \<Rightarrow> ?q
             | Some k \<Rightarrow> if k \<noteq> 0 then filter (\<lambda>c. pk c \<noteq> Some k) ?q else ?q"
  have "?q' \<noteq> [] \<longleftrightarrow> rol_en_uso instance (upper (strip isspace s)) d"
    by (auto simp: rol_en_uso_def filter_empty_conv split: option.splits)
  then show ?thesis
    using assms by (simp add: clean_rol_def Let_def)
qed

lemma clean_rol_same:
  assumes "s \<noteq> []" and "r \<noteq> []" and "upper (strip isspace s) = upper (strip isspace r)"
  shows "clean_rol isspace upper instance (Some s) d = clean_rol isspace upper instance (Some r) d"
  unfolding clean_rol_body [OF assms(1)] clean_rol_body [OF assms(2)] assms(3) by (rule refl)

lemma normaliza_ejemplo:
  "mayus_latin1 (strip espacio_latin1 ([CHR 0xA0] @ ''c-1-2024'' @ [CHR 0x85])) = ''C-1-2024''"
  by code_simp

lemma normaliza_ejemplo_letra:
  "mayus_latin1 (strip espacio_latin1 ('' pe'' @ [CHR 0xF1] @ ''a-7'')) = ''PE'' @ [CHR 0xD1] @ ''A-7''"
  by code_simp

lemma letras_ejemplo:
  "list_all2 (\<lambda>a b. mayus_latin1_car a = mayus_latin1_car b) ''c-1-2024'' ''C-1-2024''"
  by code_simp

section \<open>Properties\<close>

subsection \<open>C1: a second run within 24 hours creates no duplicate\<close>

text \<open>
  C1. Two runs of \<open>crear_alertas_vencimiento\<close>, the second at most 24 hours after the
  first, on a store whose cases have distinct primary keys. For every case key \<open>k\<close>:
  the two runs together add at most one \<^verbatim>\<open>VENCIMIENTO\<close> alert for \<open>k\<close>; when the first
  run added one, the second adds none, so exactly one was added in total; and the first
  run adds exactly one for a case it picks (in process, due in exactly 7 days, no
  \<^verbatim>\<open>VENCIMIENTO\<close> alert of the last 24 hours). Each run reads the clock once; the two
  readings of \<^verbatim>\<open>date.today()\<close> are arbitrary.
\<close>

theorem crear_alertas_vencimiento_idempotente:
  assumes "\<forall>c \<in> set (casos d). pk c \<noteq> None" and "distinct (map pk (casos d))"
    and "ahora r2 \<le> ahora r1 + timedelta_days 1"
  shows "n_vencimiento k (snd (crear_alertas_vencimiento r2 (snd (crear_alertas_vencimiento r1 d))))
           \<le> n_vencimiento k d + 1
    \<and> (n_vencimiento k (snd (crear_alertas_vencimiento r1 d)) = n_vencimiento k d + 1 \<longrightarrow>
         n_vencimiento k (snd (crear_alertas_vencimiento r2 (snd (crear_alertas_vencimiento r1 d))))
           = n_vencimiento k d + 1)
    \<and> ((\<exists>c \<in> set (casos d). pk c = Some k \<and> vence_en_plazo r1 d c) \<longrightarrow>
         n_vencimiento k (snd (crear_alertas_vencimiento r1 d)) = n_vencimiento k d + 1)"
proof -
  let ?d1 = "snd (crear_alertas_vencimiento r1 d)"
  let ?d2 = "snd (crear_alertas_vencimiento r2 ?d1)"
  let ?E1 = "filter (vence_en_plazo r1 d) (casos d)"
  let ?E2 = "filter (vence_en_plazo r2 ?d1) (casos d)"
  let ?K = "\<lambda>c. pk c = Some k"
  from crear_alertas_vencimiento_nuevas [OF assms(1,2), of r1] obtain n1 where
    d1: "?d1 = d\<lparr>alertas := alertas d @ n1\<rparr>"
    and l1: "list_all2 (\<lambda>a c. creada_por_tarea (ahora r1) c a) n1 ?E1"
    by auto
  have casos1: "casos ?d1 = casos d" by (simp add: d1)
  have ok1: "\<forall>c \<in> set (casos ?d1). pk c \<noteq> None" "distinct (map pk (casos ?d1))"
    using assms(1,2) by (simp_all add: casos1)
  from crear_alertas_vencimiento_nuevas [OF ok1, of r2] obtain n2 where
    d2: "?d2 = ?d1\<lparr>alertas := alertas ?d1 @ n2\<rparr>"
    and l2: "list_all2 (\<lambda>a c. creada_por_tarea (ahora r2) c a) n2 ?E2"
    by (auto simp: casos1)
  have c1: "n_vencimiento k ?d1 = n_vencimiento k d + length (filter ?K ?E1)"
    unfolding d1 by (rule n_vencimiento_nuevas [OF l1])
  have c2: "n_vencimiento k ?d2 = n_vencimiento k ?d1 + length (filter ?K ?E2)"
    using n_vencimiento_nuevas [OF l2, of k ?d1] d2 by simp
  have le1: "length (filter ?K ?E1) \<le> 1"
    using distinct_map_filter_le1 [of pk ?E1 "Some k"] assms(2) by (simp add: distinct_map_filter)
  have le2: "length (filter ?K ?E2) \<le> 1"
    using distinct_map_filter_le1 [of pk ?E2 "Some k"] assms(2) by (simp add: distinct_map_filter)
  have second: "filter ?K ?E2 = []" if "filter ?K ?E1 \<noteq> []"
  proof -
    from that obtain c where c: "c \<in> set ?E1" "pk c = Some k"
      by (auto simp: filter_empty_conv)
    from list_all2_set2 [OF l1 c(1)] obtain a where
      a: "a \<in> set n1" "creada_por_tarea (ahora r1) c a" by auto
    have "a \<in> set (alertas ?d1)" using a(1) by (simp add: d1)
    moreover have "alerta_caso a = k" "alerta_tipo a = VENCIMIENTO" "fecha_creacion a = ahora r1"
      using a(2) c(2) by (simp_all add: creada_por_tarea_def)
    ultimately have "tiene_alerta (ahora r2) k (alertas ?d1)"
      using assms(3) unfolding tiene_alerta_def by (intro bexI [of _ a]) simp_all
    then have "\<forall>c' \<in> set (casos d). pk c' = Some k \<longrightarrow> \<not> vence_en_plazo r2 ?d1 c'"
      by (simp add: vence_en_plazo_def sin_alerta_def)
    then show ?thesis by (auto simp: filter_empty_conv)
  qed
  have total: "length (filter ?K ?E1) + length (filter ?K ?E2) \<le> 1"
  proof (cases "filter ?K ?E1 = []")
    case True
    with le2 show ?thesis by simp
  next
    case False
    from second [OF False] le1 show ?thesis by simp
  qed
  have A: "n_vencimiento k ?d2 \<le> n_vencimiento k d + 1"
    using c1 c2 total by simp
  have B: "n_vencimiento k ?d1 = n_vencimiento k d + 1 \<longrightarrow> n_vencimiento k ?d2 = n_vencimiento k d + 1"
  proof
    assume "n_vencimiento k ?d1 = n_vencimiento k d + 1"
    with c1 have "filter ?K ?E1 \<noteq> []" by auto
    from second [OF this] c2 \<open>n_vencimiento k ?d1 = n_vencimiento k d + 1\<close>
    show "n_vencimiento k ?d2 = n_vencimiento k d + 1" by simp
  qed
  have C: "(\<exists>c \<in> set (casos d). pk c = Some k \<and> vence_en_plazo r1 d c) \<longrightarrow>
         n_vencimiento k ?d1 = n_vencimiento k d + 1"
  proof
    assume "\<exists>c \<in> set (casos d). pk c = Some k \<and> vence_en_plazo r1 d c"
    then have "filter ?K ?E1 \<noteq> []" by (auto simp: filter_empty_conv)
    then have "length (filter ?K ?E1) = 1" using le1 by (cases "filter ?K ?E1") auto
    with c1 show "n_vencimiento k ?d1 = n_vencimiento k d + 1" by simp
  qed
  from A B C show ?thesis by blast
qed

theorem crear_alertas_vencimiento_idempotente_witness:
  "list_all (\<lambda>c. pk c \<noteq> None) (casos db_casos) \<and> distinct (map pk (casos db_casos))
   \<and> ahora dia_100_tarde \<le> ahora dia_100 + timedelta_days 1
   \<and> (\<exists>c \<in> set (casos db_casos). pk c = Some 1 \<and> vence_en_plazo dia_100 db_casos c)
   \<and> n_vencimiento 1 db_casos = 0
   \<and> n_vencimiento 1 (snd (crear_alertas_vencimiento dia_100 db_casos)) = 1
   \<and> n_vencimiento 1 (snd (crear_alertas_vencimiento dia_100_tarde
        (snd (crear_alertas_vencimiento dia_100 db_casos)))) = 1"
proof -
  have h1: "\<forall>c \<in> set (casos db_casos). pk c \<noteq> None"
    by (simp add: db_casos_def caso_de_def)
  have h2: "distinct (map pk (casos db_casos))"
    by (simp add: db_casos_def caso_de_def)
  have h3: "ahora dia_100_tarde \<le> ahora dia_100 + timedelta_days 1"
    by (simp add: dia_100_def dia_100_tarde_def timedelta_days_def timedelta_hours_def)
  have h4: "\<exists>c \<in> set (casos db_casos). pk c = Some 1 \<and> vence_en_plazo dia_100 db_casos c"
    by (simp add: db_casos_def caso_de_def vence_en_plazo_def sin_alerta_def tiene_alerta_def dia_100_def)
  have z: "n_vencimiento 1 db_casos = 0"
    by (simp add: n_vencimiento_def db_casos_def)
  note t = crear_alertas_vencimiento_idempotente [OF h1 h2 h3, of 1]
  show ?thesis
    using h1 h2 h3 h4 z t by (simp add: list_all_iff)
qed

subsection \<open>C2: an alert becomes sent at most once\<close>

text \<open>
  C2. Along any sequence of executions of \<open>enviar_email_alerta\<close> (first attempts and
  retries, for any alerts, with any answers of the mail service), the stored flag
  \<open>enviada\<close> of an alert goes from false to true at most once. Every execution reads
  the flag first: when it is already true the execution returns at once, makes no call
  of \<^verbatim>\<open>send_mail\<close> and leaves the store as it is. An execution changes the store only
  by \<open>marcar_como_enviada\<close>, only for an alert that was unsent and only after a
  delivery; and \<open>marcar_como_enviada\<close> sets \<open>enviada\<close> and \<open>fecha_envio\<close> together.
  The executions of \<open>ejecuciones\<close> are taken one after the other; for executions that
  overlap, the flag goes from false to true at most once along any sequence of their
  writes (\<open>escrituras\<close>).
\<close>

theorem enviar_email_alerta_una_transicion:
  "transiciones i (d # ejecuciones xs d) \<le> 1
   \<and> transiciones i (d # escrituras ws d) \<le> 1
   \<and> (\<forall>a. Alerta_get i d = Some a \<and> enviada a \<longrightarrow>
         enviar_email_alerta retries smtp now i d = (Retorna ''Alerta ya enviada'', d, []))
   \<and> (fst (snd (enviar_email_alerta retries smtp now i d)) = d
       \<or> (\<not> esta_enviada i d \<and> smtp = None
           \<and> fst (snd (enviar_email_alerta retries smtp now i d)) = marcar_como_enviada now i d))
   \<and> (\<forall>a. Alerta_get i d = Some a \<longrightarrow>
         Alerta_get i (marcar_como_enviada now i d) = Some (a\<lparr>enviada := True, fecha_envio := Some now\<rparr>))"
proof -
  have short: "\<forall>a. Alerta_get i d = Some a \<and> enviada a \<longrightarrow>
         enviar_email_alerta retries smtp now i d = (Retorna ''Alerta ya enviada'', d, [])"
    by (simp add: enviar_email_alerta_def)
  have mark: "\<forall>a. Alerta_get i d = Some a \<longrightarrow>
         Alerta_get i (marcar_como_enviada now i d) = Some (a\<lparr>enviada := True, fecha_envio := Some now\<rparr>)"
    by (auto simp: Alerta_get_marcar_como_enviada dest: Alerta_get_id)
  from transiciones_le_1 transiciones_escrituras_le_1 short enviar_email_alerta_store mark
  show ?thesis
    by blast
qed

theorem enviar_email_alerta_una_transicion_witness:
  "Alerta_get 1 db_alertas = Some (alerta_de 1 1 (timedelta_days 5) True (Some (timedelta_days 5)))
   \<and> enviada (alerta_de 1 1 (timedelta_days 5) True (Some (timedelta_days 5)))
   \<and> enviar_email_alerta 0 None (timedelta_days 100) 1 db_alertas = (Retorna ''Alerta ya enviada'', db_alertas, [])
   \<and> transiciones 3 (db_alertas # ejecuciones
        [(0, Some falla_smtp, timedelta_days 100, 3), (1, None, timedelta_days 101, 3),
         (0, None, timedelta_days 102, 3)] db_alertas) = 1"
proof -
  have h: "Alerta_get 1 db_alertas = Some (alerta_de 1 1 (timedelta_days 5) True (Some (timedelta_days 5)))
      \<and> enviada (alerta_de 1 1 (timedelta_days 5) True (Some (timedelta_days 5)))"
    by (simp add: Alerta_get_def db_alertas_def alerta_de_def)
  have ge: "1 \<le> transiciones 3 (db_alertas # ejecuciones
        [(0, Some falla_smtp, timedelta_days 100, 3), (1, None, timedelta_days 101, 3),
         (0, None, timedelta_days 102, 3)] db_alertas)"
    by (simp add: enviar_email_alerta_def Alerta_get_def Caso_get_def destinatario_de_def
        manejar_excepcion_def max_retries_def marcar_como_enviada_def esta_enviada_def
        db_alertas_def db_casos_def alerta_de_def caso_de_def ana_def Let_def)
  note t1 = enviar_email_alerta_una_transicion [of 1 db_alertas "[]" "[]" 0 None "timedelta_days 100"]
  note t3 = enviar_email_alerta_una_transicion [of 3 db_alertas
      "[(0, Some falla_smtp, timedelta_days 100, 3), (1, None, timedelta_days 101, 3),
        (0, None, timedelta_days 102, 3)]" "[]" 0 None 0]
  from t1 h have "enviar_email_alerta 0 None (timedelta_days 100) 1 db_alertas
      = (Retorna ''Alerta ya enviada'', db_alertas, [])"
    by blast
  moreover from t3 ge have "transiciones 3 (db_alertas # ejecuciones
        [(0, Some falla_smtp, timedelta_days 100, 3), (1, None, timedelta_days 101, 3),
         (0, None, timedelta_days 102, 3)] db_alertas) = 1"
    by linarith
  ultimately show ?thesis using h by simp
qed

subsection \<open>C3: four attempts, then the failure is reported\<close>

text \<open>
  C3. For an unsent alert with a recipient, when \<^verbatim>\<open>send_mail\<close> fails in every
  execution, the worker makes exactly four calls of \<^verbatim>\<open>send_mail\<close>, the first and three
  retries, each retry scheduled with a countdown of 300 seconds; then the task returns
  the message \<^verbatim>\<open>Error: ...\<close> of the last failure instead of raising, and the store,
  so the alert's \<open>enviada = False\<close>, is unchanged.
\<close>

theorem enviar_email_alerta_reintentos:
  assumes "Alerta_get i d = Some a" and "\<not> enviada a"
    and "Caso_get (alerta_caso a) d = Some c" and "destinatario_de a c \<noteq> []"
  shows "ejecutar_tarea (\<lambda>k. Some (falla k)) reloj 0 i d =
      (let m = \<lparr>asunto = ''Alerta: '' @ alerta_tipo_display (alerta_tipo a) @ '' - '' @ rol c,
                para = destinatario_de a c\<rparr>
       in ([Envio m, Programado 300, Envio m, Programado 300, Envio m, Programado 300, Envio m],
           ''Error: '' @ str_exc (falla 3), d))"
proof -
  let ?m = "\<lparr>asunto = ''Alerta: '' @ alerta_tipo_display (alerta_tipo a) @ '' - '' @ rol c,
                para = destinatario_de a c\<rparr>"
  have body: "enviar_email_alerta k (Some e) now i d = (manejar_excepcion k e, d, [?m])" for k e now
    using assms by (simp add: enviar_email_alerta_def Let_def)
  have r3: "ejecutar_tarea (\<lambda>k. Some (falla k)) reloj 3 i d = ([Envio ?m], ''Error: '' @ str_exc (falla 3), d)"
    by (subst ejecutar_tarea.simps) (simp add: body manejar_excepcion_def max_retries_def)
  have r2: "ejecutar_tarea (\<lambda>k. Some (falla k)) reloj 2 i d
      = ([Envio ?m, Programado 300, Envio ?m], ''Error: '' @ str_exc (falla 3), d)"
    using r3 by (subst ejecutar_tarea.simps) (simp add: body manejar_excepcion_def max_retries_def eval_nat_numeral)
  have r1: "ejecutar_tarea (\<lambda>k. Some (falla k)) reloj 1 i d
      = ([Envio ?m, Programado 300, Envio ?m, Programado 300, Envio ?m], ''Error: '' @ str_exc (falla 3), d)"
    using r2 by (subst ejecutar_tarea.simps) (simp add: body manejar_excepcion_def max_retries_def eval_nat_numeral)
  have r0: "ejecutar_tarea (\<lambda>k. Some (falla k)) reloj 0 i d
      = ([Envio ?m, Programado 300, Envio ?m, Programado 300, Envio ?m, Programado 300, Envio ?m],
         ''Error: '' @ str_exc (falla 3), d)"
    using r1 by (subst ejecutar_tarea.simps) (simp add: body manejar_excepcion_def max_retries_def)
  then show ?thesis by (simp add: Let_def)
qed

theorem enviar_email_alerta_reintentos_witness:
  "ejecutar_tarea (\<lambda>k. Some falla_smtp) (\<lambda>k. timedelta_days 100 + timedelta_minutes (5 * int k)) 0 3 db_alertas =
     ([Envio \<lparr>asunto = ''Alerta: Vencimiento de Plazo - C-1-2024'', para = ''ana@estudio.cl''\<rparr>, Programado 300,
       Envio \<lparr>asunto = ''Alerta: Vencimiento de Plazo - C-1-2024'', para = ''ana@estudio.cl''\<rparr>, Programado 300,
       Envio \<lparr>asunto = ''Alerta: Vencimiento de Plazo - C-1-2024'', para = ''ana@estudio.cl''\<rparr>, Programado 300,
       Envio \<lparr>asunto = ''Alerta: Vencimiento de Plazo - C-1-2024'', para = ''ana@estudio.cl''\<rparr>],
      ''Error: Connection refused'', db_alertas)"
proof -
  have h1: "Alerta_get 3 db_alertas = Some (alerta_de 3 1 (timedelta_days 1) False None)"
    by (simp add: Alerta_get_def db_alertas_def alerta_de_def)
  have h2: "\<not> enviada (alerta_de 3 1 (timedelta_days 1) False None)"
    by (simp add: alerta_de_def)
  have h3: "Caso_get (alerta_caso (alerta_de 3 1 (timedelta_days 1) False None)) db_alertas
      = Some (caso_de (Some 1) ''C-1-2024'' 107 EN_TRAMITACION ana)"
    by (simp add: Caso_get_def db_alertas_def db_casos_def alerta_de_def caso_de_def)
  have h4: "destinatario_de (alerta_de 3 1 (timedelta_days 1) False None)
      (caso_de (Some 1) ''C-1-2024'' 107 EN_TRAMITACION ana) \<noteq> []"
    by (simp add: destinatario_de_def alerta_de_def caso_de_def ana_def)
  from enviar_email_alerta_reintentos [OF h1 h2 h3 h4, of "\<lambda>k. falla_smtp"
      "\<lambda>k. timedelta_days 100 + timedelta_minutes (5 * int k)"]
  show ?thesis
    by (simp add: destinatario_de_def alerta_de_def caso_de_def ana_def falla_smtp_def Let_def)
qed

subsection \<open>C4: the urgent flag after a save\<close>



subsection \<open>C5: which alerts a run creates\<close>

text \<open>
  C5, as the code has it. A run of \<open>crear_alertas_vencimiento\<close> on a store whose
  cases have distinct primary keys keeps the stored alerts and appends one new alert for
  each case that is in process, is due exactly 7 days after today and has no
  \<^verbatim>\<open>VENCIMIENTO\<close> alert created in the last 24 hours, and for no other case; in
  particular for no case due in more than 7 days. Each new alert is of type
  \<^verbatim>\<open>VENCIMIENTO\<close>, fires at now + 30 minutes, is addressed to the email of the case's
  responsible user and has \<open>enviar_email\<close> set. Cases and movements are untouched, and
  the returned message carries the number of alerts created.
\<close>

theorem crear_alertas_vencimiento_crea:
  assumes "\<forall>c \<in> set (casos d). pk c \<noteq> None" and "distinct (map pk (casos d))"
  shows "take (length (alertas d)) (alertas (snd (crear_alertas_vencimiento r d))) = alertas d
    \<and> list_all2 (\<lambda>a c. creada_por_tarea (ahora r) c a)
         (drop (length (alertas d)) (alertas (snd (crear_alertas_vencimiento r d))))
         (filter (vence_en_plazo r d) (casos d))
    \<and> (\<forall>c \<in> set (casos d). \<forall>fv. fecha_vencimiento c = Some fv \<and> fv - hoy r > 7 \<longrightarrow>
          (\<forall>a \<in> set (drop (length (alertas d)) (alertas (snd (crear_alertas_vencimiento r d)))).
             pk c \<noteq> Some (alerta_caso a)))
    \<and> casos (snd (crear_alertas_vencimiento r d)) = casos d
    \<and> movimientos (snd (crear_alertas_vencimiento r d)) = movimientos d
    \<and> fst (crear_alertas_vencimiento r d) =
         ''Creadas ''
         @ str_nat (length (alertas (snd (crear_alertas_vencimiento r d))) - length (alertas d))
         @ '' alertas autom'' @ [CHR 0xE1] @ ''ticas''"
proof -
  from crear_alertas_vencimiento_nuevas [OF assms, of r] obtain nuevas where
    run: "crear_alertas_vencimiento r d =
           (''Creadas '' @ str_nat (length nuevas) @ '' alertas autom'' @ [CHR 0xE1] @ ''ticas'',
            d\<lparr>alertas := alertas d @ nuevas\<rparr>)"
    and l2: "list_all2 (\<lambda>a c. creada_por_tarea (ahora r) c a) nuevas (filter (vence_en_plazo r d) (casos d))"
    by blast
  have late: "\<forall>c \<in> set (casos d). \<forall>fv. fecha_vencimiento c = Some fv \<and> fv - hoy r > 7 \<longrightarrow>
          (\<forall>a \<in> set nuevas. pk c \<noteq> Some (alerta_caso a))"
  proof (intro ballI allI impI)
    fix c fv a
    assume c: "c \<in> set (casos d)" and fv: "fecha_vencimiento c = Some fv \<and> fv - hoy r > 7"
      and a: "a \<in> set nuevas"
    from list_all2_set1 [OF l2 a] obtain c' where
      c': "c' \<in> set (casos d)" "vence_en_plazo r d c'" "creada_por_tarea (ahora r) c' a"
      by auto
    show "pk c \<noteq> Some (alerta_caso a)"
    proof
      assume "pk c = Some (alerta_caso a)"
      with c' have "pk c = pk c'" by (simp add: creada_por_tarea_def)
      with assms(2) c c'(1) have "c = c'" by (simp add: distinct_map inj_on_def)
      with c'(2) fv show False by (auto simp: vence_en_plazo_def)
    qed
  qed
  show ?thesis
    unfolding run fst_conv snd_conv using l2 late by simp
qed

theorem crear_alertas_vencimiento_crea_witness:
  "list_all (\<lambda>c. pk c \<noteq> None) (casos db_casos) \<and> distinct (map pk (casos db_casos))
   \<and> map alerta_caso (alertas (snd (crear_alertas_vencimiento dia_100 db_casos))) = [1]
   \<and> fst (crear_alertas_vencimiento dia_100 db_casos) = ''Creadas 1 alertas autom'' @ [CHR 0xE1] @ ''ticas''"
proof -
  have h1: "\<forall>c \<in> set (casos db_casos). pk c \<noteq> None"
    by (simp add: db_casos_def caso_de_def)
  have h2: "distinct (map pk (casos db_casos))"
    by (simp add: db_casos_def caso_de_def)
  note t = crear_alertas_vencimiento_crea [OF h1 h2, of dia_100]
  show ?thesis
    using h1 h2 t unfolding crear_alertas_vencimiento_db_casos by (simp add: db_casos_def list_all_iff)
qed

text \<open>
  Without the 24-hour condition the statement fails: case 1 is in process and due in exactly
  7 days, it has an alert created two hours ago, and the run creates nothing.
\<close>

theorem crear_alertas_vencimiento_counterexample:
  "caso_de (Some 1) ''C-1-2024'' 107 EN_TRAMITACION ana \<in> set (casos db_reciente)
   \<and> estado (caso_de (Some 1) ''C-1-2024'' 107 EN_TRAMITACION ana) = EN_TRAMITACION
   \<and> fecha_vencimiento (caso_de (Some 1) ''C-1-2024'' 107 EN_TRAMITACION ana) = Some (hoy dia_100 + 7)
   \<and> alertas (snd (crear_alertas_vencimiento dia_100 db_reciente)) = alertas db_reciente
   \<and> fst (crear_alertas_vencimiento dia_100 db_reciente) = ''Creadas 0 alertas autom'' @ [CHR 0xE1] @ ''ticas''"
  by (simp add: crear_alertas_vencimiento_def casos_proximos_def db_reciente_def db_casos_def
      caso_de_def alerta_de_def dia_100_def tiene_alerta_def timedelta_days_def timedelta_hours_def
      str_nat.simps)

subsection \<open>C6: what exists right after a case is created\<close>

text \<open>
  C6. Saving a new case (no primary key, a due date, a docket not in use) on a store
  whose alerts and movements belong to stored cases raises nothing and inserts the case
  under a fresh key. Right after, exactly one movement of that case exists: it is
  flagged important and its description is \<^verbatim>\<open>Caso creado: \<close> followed by the display
  name of the case type, \<^verbatim>\<open> - \<close> and the first 100 characters of the subject
  matter. When the case is in process and due within 7 days of the current date,
  exactly one alert of that case exists, of type \<^verbatim>\<open>VENCIMIENTO\<close>, created by
  \<open>crear_alerta_automatica\<close>; otherwise none exists.
\<close>

theorem Caso_save_creacion:
  assumes "pk self = None" and "fecha_vencimiento self = Some fv"
    and "\<forall>c \<in> set (casos d). rol c \<noteq> rol self"
    and "\<forall>a \<in> set (alertas d). alerta_caso a \<in> set (claves d)"
    and "\<forall>m \<in> set (movimientos d). mov_caso m \<in> set (claves d)"
  shows "snd (snd (Caso_save r self d)) = None
    \<and> pk (fst (Caso_save r self d)) = Some (nuevo_id (claves d))
    \<and> fst (Caso_save r self d) \<in> set (casos (fst (snd (Caso_save r self d))))
    \<and> filter (\<lambda>m. mov_caso m = nuevo_id (claves d)) (movimientos (fst (snd (Caso_save r self d))))
        = [movimiento_inicial (ahora r) (nuevo_id (claves d)) self d]
    \<and> filter (\<lambda>a. alerta_caso a = nuevo_id (claves d)) (alertas (fst (snd (Caso_save r self d))))
        = (if estado self = EN_TRAMITACION \<and> fv - datetime_date (ahora r) \<le> 7
           then [alerta_inicial (ahora r) (nuevo_id (claves d)) self fv d] else [])"
proof -
  let ?k = "nuevo_id (claves d)"
  let ?u = "fv - datetime_date (ahora r) \<le> 7"
  let ?c = "self\<lparr>urgente := ?u, pk := Some ?k\<rparr>"
  let ?d1 = "d\<lparr>casos := casos d @ [?c]\<rparr>"
  let ?d2 = "?d1\<lparr>movimientos := movimientos d @ [movimiento_inicial (ahora r) ?k self d]\<rparr>"
  have pre: "marcar_urgente_automatico (ahora r) (Caso_save_urgente (hoy r) self) = self\<lparr>urgente := ?u\<rparr>"
    using assms(2) by (simp add: marcar_urgente_automatico_def Caso_save_urgente_def Let_def)
  have fila: "guardar_fila (self\<lparr>urgente := ?u\<rparr>) d = Inr (?c, ?d1, True)"
    using assms(1,2,3) by (simp add: guardar_fila_def Let_def)
  have mov: "crear_movimiento_inicial (ahora r) ?c True ?d1 = (?d2, None)"
    by (simp add: crear_movimiento_inicial_def movimiento_inicial_def)
  have ale: "crear_alerta_automatica (ahora r) ?c True ?d2 =
      (if estado self = EN_TRAMITACION \<and> ?u
       then ?d2\<lparr>alertas := alertas d @ [alerta_inicial (ahora r) ?k self fv d]\<rparr> else ?d2, None)"
    using assms(2)
    by (simp add: crear_alerta_automatica_def Alerta_create_def alerta_inicial_def mensaje_automatico_def Let_def)
  have run: "Caso_save r self d =
      (?c, if estado self = EN_TRAMITACION \<and> ?u
           then ?d2\<lparr>alertas := alertas d @ [alerta_inicial (ahora r) ?k self fv d]\<rparr> else ?d2, None)"
    unfolding Caso_save_def Let_def pre fila by (simp add: mov ale)
  have no_m: "filter (\<lambda>m. mov_caso m = ?k) (movimientos d) = []"
    using assms(5) nuevo_id_fresh [of "claves d"] by (auto simp: filter_empty_conv)
  have no_a: "filter (\<lambda>a. alerta_caso a = ?k) (alertas d) = []"
    using assms(4) nuevo_id_fresh [of "claves d"] by (auto simp: filter_empty_conv)
  have m_k: "mov_caso (movimiento_inicial (ahora r) ?k self d) = ?k"
    by (simp add: movimiento_inicial_def)
  have a_k: "alerta_caso (alerta_inicial (ahora r) ?k self fv d) = ?k"
    by (simp add: alerta_inicial_def)
  show ?thesis
    unfolding run using no_m no_a m_k a_k by simp
qed

theorem Caso_save_creacion_witness:
  "pk caso_nuevo = None
   \<and> pk (fst (Caso_save dia_100 caso_nuevo db_casos)) = Some 3
   \<and> map descripcion (filter (\<lambda>m. mov_caso m = 3) (movimientos (fst (snd (Caso_save dia_100 caso_nuevo db_casos)))))
        = [''Caso creado: Recurso de Amparo - Despido injustificado'']
   \<and> map importante (filter (\<lambda>m. mov_caso m = 3) (movimientos (fst (snd (Caso_save dia_100 caso_nuevo db_casos)))))
        = [True]
   \<and> map alerta_tipo (filter (\<lambda>a. alerta_caso a = 3) (alertas (fst (snd (Caso_save dia_100 caso_nuevo db_casos)))))
        = [VENCIMIENTO]"
proof -
  have h1: "pk caso_nuevo = None"
    by (simp add: caso_nuevo_def caso_de_def)
  have h2: "fecha_vencimiento caso_nuevo = Some 105"
    by (simp add: caso_nuevo_def caso_de_def)
  have h3: "\<forall>c \<in> set (casos db_casos). rol c \<noteq> rol caso_nuevo"
    by (simp add: caso_nuevo_def caso_de_def db_casos_def)
  have h4: "\<forall>a \<in> set (alertas db_casos). alerta_caso a \<in> set (claves db_casos)"
    by (simp add: db_casos_def)
  have h5: "\<forall>m \<in> set (movimientos db_casos). mov_caso m \<in> set (claves db_casos)"
    by (simp add: db_casos_def)
  have k: "nuevo_id (claves db_casos) = 3"
    by (simp add: claves_def nuevo_id_def db_casos_def caso_de_def)
  have e: "estado caso_nuevo = EN_TRAMITACION \<and> (105::int) - datetime_date (ahora dia_100) \<le> 7"
    by (simp add: caso_nuevo_def caso_de_def dia_100_def datetime_date_def timedelta_days_def)
  from Caso_save_creacion [OF h1 h2 h3 h4 h5, of dia_100] h1 e show ?thesis
    unfolding k
    by (simp add: movimiento_inicial_def alerta_inicial_def caso_nuevo_def caso_de_def)
qed

subsection \<open>C7: no recipient\<close>

text \<open>
  C7. For an unsent alert without an explicit recipient whose case's responsible user
  has no email, an execution of \<open>enviar_email_alerta\<close> returns
  \<^verbatim>\<open>Sin email destinatario\<close>: it raises nothing, makes no call of \<^verbatim>\<open>send_mail\<close>,
  schedules no retry, and leaves the store unchanged, so the alert stays unsent.
\<close>

theorem enviar_email_alerta_sin_destinatario:
  assumes "Alerta_get i d = Some a" and "\<not> enviada a"
    and "email_destinatario a = None \<or> email_destinatario a = Some []"
    and "Caso_get (alerta_caso a) d = Some c" and "email (usuario_responsable c) = []"
  shows "enviar_email_alerta retries smtp now i d = (Retorna ''Sin email destinatario'', d, [])
    \<and> ejecutar_tarea smtps reloj 0 i d = ([], ''Sin email destinatario'', d)
    \<and> \<not> esta_enviada i d"
proof -
  have dest: "destinatario_de a c = []"
    using assms(3,5) by (auto simp: destinatario_de_def)
  have body: "enviar_email_alerta k s t i d = (Retorna ''Sin email destinatario'', d, [])" for k s t
    using assms(1,2,4) dest by (simp add: enviar_email_alerta_def Let_def)
  have "ejecutar_tarea smtps reloj 0 i d = ([], ''Sin email destinatario'', d)"
    by (subst ejecutar_tarea.simps) (simp add: body)
  moreover have "\<not> esta_enviada i d"
    using assms(1,2) by (simp add: esta_enviada_def)
  ultimately show ?thesis using body by simp
qed

theorem enviar_email_alerta_sin_destinatario_witness:
  "enviar_email_alerta 0 None (timedelta_days 100) 4 db_sin_correo
     = (Retorna ''Sin email destinatario'', db_sin_correo, [])
   \<and> ejecutar_tarea (\<lambda>k. None) (\<lambda>k. timedelta_days 100) 0 4 db_sin_correo
     = ([], ''Sin email destinatario'', db_sin_correo)
   \<and> \<not> esta_enviada 4 db_sin_correo"
proof -
  have h1: "Alerta_get 4 db_sin_correo = Some (alerta_de 4 2 (timedelta_days 99) False None)"
    by (simp add: Alerta_get_def db_sin_correo_def alerta_de_def)
  have h2: "\<not> enviada (alerta_de 4 2 (timedelta_days 99) False None)"
    by (simp add: alerta_de_def)
  have h3: "email_destinatario (alerta_de 4 2 (timedelta_days 99) False None) = None
      \<or> email_destinatario (alerta_de 4 2 (timedelta_days 99) False None) = Some []"
    by (simp add: alerta_de_def)
  have h4: "Caso_get (alerta_caso (alerta_de 4 2 (timedelta_days 99) False None)) db_sin_correo
      = Some (caso_de (Some 2) ''C-2-2024'' 120 EN_TRAMITACION beto)"
    by (simp add: Caso_get_def db_sin_correo_def db_casos_def alerta_de_def caso_de_def)
  have h5: "email (usuario_responsable (caso_de (Some 2) ''C-2-2024'' 120 EN_TRAMITACION beto)) = []"
    by (simp add: caso_de_def beto_def)
  from enviar_email_alerta_sin_destinatario [OF h1 h2 h3 h4 h5, of 0 None "timedelta_days 100"
      "\<lambda>k. None" "\<lambda>k. timedelta_days 100"]
  show ?thesis .
qed

subsection \<open>C8: who may mark an alert as read\<close>

text \<open>
  C8, as the code has it. \<open>marcar_alerta_leida\<close> sets \<open>leida\<close> of the alert and
  redirects to the alert list exactly when the requesting user is staff or is the
  responsible user of the alert's case. For every other logged-in user it raises
  \<^verbatim>\<open>Http404\<close> with the message \<^verbatim>\<open>No tienes permisos para esta alerta\<close> and leaves the
  store unchanged; a missing alert raises \<^verbatim>\<open>Http404\<close> too. Without a logged-in user
  the request is redirected to the login page and the store is unchanged.
\<close>

theorem marcar_alerta_leida_permisos:
  "marcar_alerta_leida None i d = (Inr RedirectLogin, d)
   \<and> (Alerta_get i d = None \<longrightarrow>
        marcar_alerta_leida (Some u) i d = (Inl (Http404 ''No Alerta matches the given query.''), d))
   \<and> (\<forall>a c. Alerta_get i d = Some a \<and> Caso_get (alerta_caso a) d = Some c \<longrightarrow>
        (if is_staff u \<or> user_id (usuario_responsable c) = user_id u
         then marcar_alerta_leida (Some u) i d = (Inr (Redirect ''Casos:alertas''), marcar_leida i d)
              \<and> Alerta_get i (marcar_leida i d) = Some (a\<lparr>leida := True\<rparr>)
         else marcar_alerta_leida (Some u) i d = (Inl (Http404 ''No tienes permisos para esta alerta''), d)))"
proof -
  have ok: "Alerta_get i (marcar_leida i d) = Some (a\<lparr>leida := True\<rparr>)" if "Alerta_get i d = Some a" for a
    using that Alerta_get_id [OF that] by (simp add: Alerta_get_marcar_leida)
  show ?thesis
    using ok by (auto simp: marcar_alerta_leida_def)
qed

theorem marcar_alerta_leida_permisos_witness:
  "Alerta_get 3 db_alertas = Some (alerta_de 3 1 (timedelta_days 1) False None)
   \<and> Caso_get 1 db_alertas = Some (caso_de (Some 1) ''C-1-2024'' 107 EN_TRAMITACION ana)
   \<and> marcar_alerta_leida (Some ana) 3 db_alertas = (Inr (Redirect ''Casos:alertas''), marcar_leida 3 db_alertas)
   \<and> marcar_alerta_leida (Some carla) 3 db_alertas = (Inr (Redirect ''Casos:alertas''), marcar_leida 3 db_alertas)
   \<and> Alerta_get 3 (marcar_leida 3 db_alertas) = Some ((alerta_de 3 1 (timedelta_days 1) False None)\<lparr>leida := True\<rparr>)
   \<and> marcar_alerta_leida (Some beto) 3 db_alertas = (Inl (Http404 ''No tienes permisos para esta alerta''), db_alertas)
   \<and> Alerta_get 9 db_alertas = None
   \<and> marcar_alerta_leida (Some beto) 9 db_alertas = (Inl (Http404 ''No Alerta matches the given query.''), db_alertas)"
proof -
  have h1: "Alerta_get 3 db_alertas = Some (alerta_de 3 1 (timedelta_days 1) False None)"
    by (simp add: Alerta_get_def db_alertas_def alerta_de_def)
  have h2: "Caso_get (alerta_caso (alerta_de 3 1 (timedelta_days 1) False None)) db_alertas
      = Some (caso_de (Some 1) ''C-1-2024'' 107 EN_TRAMITACION ana)"
    by (simp add: Caso_get_def db_alertas_def db_casos_def alerta_de_def caso_de_def)
  have h3: "Alerta_get 9 db_alertas = None"
    by (simp add: Alerta_get_def db_alertas_def alerta_de_def)
  have u: "user_id (usuario_responsable (caso_de (Some 1) ''C-1-2024'' 107 EN_TRAMITACION ana)) = user_id ana"
    "is_staff carla" "\<not> is_staff beto"
    "user_id (usuario_responsable (caso_de (Some 1) ''C-1-2024'' 107 EN_TRAMITACION ana)) \<noteq> user_id beto"
    by (simp_all add: caso_de_def ana_def beto_def carla_def)
  from marcar_alerta_leida_permisos [of 3 db_alertas ana] h1 h2 u
  have a: "marcar_alerta_leida (Some ana) 3 db_alertas = (Inr (Redirect ''Casos:alertas''), marcar_leida 3 db_alertas)
      \<and> Alerta_get 3 (marcar_leida 3 db_alertas) = Some ((alerta_de 3 1 (timedelta_days 1) False None)\<lparr>leida := True\<rparr>)"
    by auto
  from marcar_alerta_leida_permisos [of 3 db_alertas carla] h1 h2 u
  have c: "marcar_alerta_leida (Some carla) 3 db_alertas = (Inr (Redirect ''Casos:alertas''), marcar_leida 3 db_alertas)"
    by auto
  from marcar_alerta_leida_permisos [of 3 db_alertas beto] h1 h2 u
  have b: "marcar_alerta_leida (Some beto) 3 db_alertas = (Inl (Http404 ''No tienes permisos para esta alerta''), db_alertas)"
    by auto
  from marcar_alerta_leida_permisos [of 9 db_alertas beto] h3
  have n: "marcar_alerta_leida (Some beto) 9 db_alertas = (Inl (Http404 ''No Alerta matches the given query.''), db_alertas)"
    by blast
  from h1 h2 h3 a b c n show ?thesis
    by (simp add: alerta_de_def)
qed

text \<open>
  The refusal is not a \<^verbatim>\<open>PermissionDenied\<close>: beto, who is neither staff nor responsible
  for case 1, gets the same \<^verbatim>\<open>Http404\<close> class for alert 3 of that case as for the
  missing alert 9.
\<close>

theorem marcar_alerta_leida_counterexample:
  "\<not> is_staff beto
   \<and> Caso_get 1 db_alertas = Some (caso_de (Some 1) ''C-1-2024'' 107 EN_TRAMITACION ana)
   \<and> user_id ana \<noteq> user_id beto
   \<and> \<not> es_PermissionDenied (fst (marcar_alerta_leida (Some beto) 3 db_alertas))
   \<and> es_Http404 (fst (marcar_alerta_leida (Some beto) 3 db_alertas))
   \<and> es_Http404 (fst (marcar_alerta_leida (Some beto) 9 db_alertas))"
  by (simp add: marcar_alerta_leida_def Alerta_get_def Caso_get_def db_alertas_def db_casos_def
      alerta_de_def caso_de_def ana_def beto_def)

subsection \<open>C9: purging old alerts\<close>

text \<open>
  C9. \<open>limpiar_alertas_antiguas\<close> deletes all and only the alerts that are sent and
  whose \<open>fecha_envio\<close> is earlier than now minus 90 days: a row stays exactly when it
  is not of that kind, an unsent alert always stays, the other tables are untouched,
  and the returned message carries the number of rows deleted.
\<close>

theorem limpiar_alertas_antiguas_correct:
  "alertas (snd (limpiar_alertas_antiguas now d)) =
     filter (\<lambda>a. \<not> (enviada a \<and> (\<exists>t. fecha_envio a = Some t \<and> t < now - 90 * 86400000000)))
       (alertas d)
   \<and> (\<forall>a \<in> set (alertas d). \<not> enviada a \<longrightarrow> a \<in> set (alertas (snd (limpiar_alertas_antiguas now d))))
   \<and> casos (snd (limpiar_alertas_antiguas now d)) = casos d
   \<and> movimientos (snd (limpiar_alertas_antiguas now d)) = movimientos d
   \<and> fst (limpiar_alertas_antiguas now d) =
       ''Eliminadas '' @ str_nat (length (alertas d) - length (alertas (snd (limpiar_alertas_antiguas now d))))
         @ '' alertas antiguas''"
proof -
  let ?c = "now - timedelta_days 90"
  let ?old = "filter (alerta_antigua ?c) (alertas d)"
  let ?keep = "filter (\<lambda>a. \<not> alerta_antigua ?c a) (alertas d)"
  have eq: "alerta_antigua ?c =
      (\<lambda>a. enviada a \<and> (\<exists>t. fecha_envio a = Some t \<and> t < now - 90 * 86400000000))"
    by (rule ext) (auto simp: alerta_antigua_def timedelta_days_def split: option.splits)
  have res: "limpiar_alertas_antiguas now d =
      (''Eliminadas '' @ str_nat (length ?old) @ '' alertas antiguas'', d\<lparr>alertas := ?keep\<rparr>)"
    unfolding limpiar_alertas_antiguas_def Let_def by simp
  have len: "length ?old = length (alertas d) - length ?keep"
    using sum_length_filter_compl [of "alerta_antigua ?c" "alertas d"] by simp
  have unsent: "\<forall>a \<in> set (alertas d). \<not> enviada a \<longrightarrow> a \<in> set ?keep"
    by (simp add: alerta_antigua_def)
  show ?thesis
    unfolding res fst_conv snd_conv using len unsent by (simp add: eq)
qed


theorem limpiar_alertas_antiguas_witness:
  "alertas (snd (limpiar_alertas_antiguas (timedelta_days 100) db_alertas)) =
     [alerta_de 2 1 (timedelta_days 50) True (Some (timedelta_days 50)),
      alerta_de 3 1 (timedelta_days 1) False None]
   \<and> fst (limpiar_alertas_antiguas (timedelta_days 100) db_alertas) = ''Eliminadas 1 alertas antiguas''"
  using limpiar_alertas_antiguas_correct [of "timedelta_days 100" db_alertas]
  by (simp add: limpiar_alertas_antiguas_def alerta_antigua_def db_alertas_def db_casos_def
      alerta_de_def timedelta_days_def str_nat.simps)


subsection \<open>C10: the docket field of the case form\<close>

text \<open>
  C10. For every non-empty submitted docket, with \<open>isspace\<close> and \<open>upper\<close> the
  interpreter's whitespace test and \<^verbatim>\<open>str.upper\<close>: \<open>clean_rol\<close> returns the upper
  case of the stripped docket, and raises \<^verbatim>\<open>ValidationError\<close> exactly when a stored
  case other than the one being edited has that normalised docket. The stripped docket
  is the submitted one without a run of whitespace at each end, and it neither starts
  nor ends with whitespace. Hence a docket with the same normal form, padded with any
  whitespace, gets the same answer; and so does a docket that differs from it only in
  letter case, position by position, given that \<^verbatim>\<open>str.upper\<close> works character by
  character and that characters with one upper case are both whitespace or both not.
  (The field is required, so the form never passes an empty docket on.)
\<close>

theorem clean_rol_normaliza:
  assumes "r \<noteq> []"
  shows "clean_rol isspace upper inst (Some r) d =
      (if rol_en_uso inst (upper (strip isspace r)) d
       then Inl (ValidationError (''Ya existe un caso con el rol '' @ [CHR 0x27]
                                   @ upper (strip isspace r) @ [CHR 0x27]))
       else Inr (Some (upper (strip isspace r))))
    \<and> (\<exists>ws1 ws2. r = ws1 @ strip isspace r @ ws2 \<and> (\<forall>ch \<in> set ws1 \<union> set ws2. isspace ch))
    \<and> (strip isspace r \<noteq> [] \<longrightarrow>
          \<not> isspace (hd (strip isspace r)) \<and> \<not> isspace (last (strip isspace r)))
    \<and> (\<forall>r' ws1 ws2. r' \<noteq> [] \<and> upper (strip isspace r') = upper (strip isspace r)
            \<and> (\<forall>ch \<in> set ws1 \<union> set ws2. isspace ch) \<longrightarrow>
          clean_rol isspace upper inst (Some (ws1 @ r' @ ws2)) d
            = clean_rol isspace upper inst (Some r) d)
    \<and> ((\<forall>s. upper s = concat (map up s)) \<and> (\<forall>a b. up a = up b \<longrightarrow> isspace a = isspace b) \<longrightarrow>
          (\<forall>r'. list_all2 (\<lambda>a b. up a = up b) r' r \<longrightarrow>
             clean_rol isspace upper inst (Some r') d = clean_rol isspace upper inst (Some r) d))"
proof (intro conjI allI impI)
  show "clean_rol isspace upper inst (Some r) d =
      (if rol_en_uso inst (upper (strip isspace r)) d
       then Inl (ValidationError (''Ya existe un caso con el rol '' @ [CHR 0x27]
                                   @ upper (strip isspace r) @ [CHR 0x27]))
       else Inr (Some (upper (strip isspace r))))"
    using assms by (rule clean_rol_body)
next
  show "\<exists>ws1 ws2. r = ws1 @ strip isspace r @ ws2 \<and> (\<forall>ch \<in> set ws1 \<union> set ws2. isspace ch)"
    by (rule strip_decompose)
next
  assume "strip isspace r \<noteq> []"
  then show "\<not> isspace (hd (strip isspace r))" by (rule strip_ends [THEN conjunct1])
next
  assume "strip isspace r \<noteq> []"
  then show "\<not> isspace (last (strip isspace r))" by (rule strip_ends [THEN conjunct2])
next
  fix r' ws1 ws2
  assume h: "r' \<noteq> [] \<and> upper (strip isspace r') = upper (strip isspace r)
            \<and> (\<forall>ch \<in> set ws1 \<union> set ws2. isspace ch)"
  then have "\<forall>ch \<in> set ws1. isspace ch" and "\<forall>ch \<in> set ws2. isspace ch"
    by simp_all
  then have "strip isspace (ws1 @ r' @ ws2) = strip isspace r'"
    by (rule strip_pad)
  with h have e: "upper (strip isspace (ws1 @ r' @ ws2)) = upper (strip isspace r)"
    by simp
  from h have "ws1 @ r' @ ws2 \<noteq> []" by simp
  then show "clean_rol isspace upper inst (Some (ws1 @ r' @ ws2)) d
            = clean_rol isspace upper inst (Some r) d"
    using assms e by (rule clean_rol_same)
next
  fix r'
  assume p: "(\<forall>s. upper s = concat (map up s)) \<and> (\<forall>a b. up a = up b \<longrightarrow> isspace a = isspace b)"
    and l: "list_all2 (\<lambda>a b. up a = up b) r' r"
  from l assms have ne: "r' \<noteq> []" by auto
  from p have sp: "up a = up b \<Longrightarrow> isspace a = isspace b" for a b by blast
  have "list_all2 (\<lambda>a b. up a = up b) (strip isspace r') (strip isspace r)"
    using l sp by (rule list_all2_strip)
  then have "concat (map up (strip isspace r')) = concat (map up (strip isspace r))"
    by (rule concat_map_list_all2)
  with p have e: "upper (strip isspace r') = upper (strip isspace r)" by simp
  from ne assms e
  show "clean_rol isspace upper inst (Some r') d = clean_rol isspace upper inst (Some r) d"
    by (rule clean_rol_same)
qed

theorem clean_rol_normaliza_witness:
  "clean_rol espacio_latin1 mayus_latin1 caso_nuevo (Some ([CHR 0xA0] @ ''c-1-2024'' @ [CHR 0x85])) db_casos
     = Inl (ValidationError (''Ya existe un caso con el rol '' @ [CHR 0x27] @ ''C-1-2024'' @ [CHR 0x27]))
   \<and> clean_rol espacio_latin1 mayus_latin1 (caso_de (Some 1) ''C-1-2024'' 107 EN_TRAMITACION ana)
        (Some ([CHR 0xA0] @ ''c-1-2024'' @ [CHR 0x85])) db_casos
     = Inr (Some ''C-1-2024'')
   \<and> clean_rol espacio_latin1 mayus_latin1 caso_nuevo (Some ('' pe'' @ [CHR 0xF1] @ ''a-7'')) db_casos
     = Inr (Some (''PE'' @ [CHR 0xD1] @ ''A-7''))
   \<and> clean_rol espacio_latin1 mayus_latin1 caso_nuevo (Some ''c-1-2024'') db_casos
     = clean_rol espacio_latin1 mayus_latin1 caso_nuevo (Some ''C-1-2024'') db_casos"
proof -
  have h: "[CHR 0xA0] @ ''c-1-2024'' @ [CHR 0x85] \<noteq> []" "'' pe'' @ [CHR 0xF1] @ ''a-7'' \<noteq> []"
    "''C-1-2024'' \<noteq> []"
    by simp_all
  have u1: "rol_en_uso caso_nuevo ''C-1-2024'' db_casos"
    by (simp add: rol_en_uso_def caso_nuevo_def db_casos_def caso_de_def)
  have u2: "\<not> rol_en_uso (caso_de (Some 1) ''C-1-2024'' 107 EN_TRAMITACION ana) ''C-1-2024'' db_casos"
    by (simp add: rol_en_uso_def db_casos_def caso_de_def)
  have u3: "\<not> rol_en_uso caso_nuevo (''PE'' @ [CHR 0xD1] @ ''A-7'') db_casos"
    by (simp add: rol_en_uso_def db_casos_def caso_de_def)
  have p: "(\<forall>s. mayus_latin1 s = concat (map mayus_latin1_car s))
      \<and> (\<forall>a b. mayus_latin1_car a = mayus_latin1_car b \<longrightarrow> espacio_latin1 a = espacio_latin1 b)"
  proof (intro conjI allI impI)
    show "mayus_latin1 s = concat (map mayus_latin1_car s)" for s
      by (simp add: mayus_latin1_def)
    show "espacio_latin1 a = espacio_latin1 b" if "mayus_latin1_car a = mayus_latin1_car b" for a b
      using that by (rule mayus_latin1_car_espacio)
  qed
  from clean_rol_normaliza [OF h(1), where isspace = espacio_latin1 and upper = mayus_latin1
      and inst = caso_nuevo and d = db_casos, THEN conjunct1] u1
  have a: "clean_rol espacio_latin1 mayus_latin1 caso_nuevo (Some ([CHR 0xA0] @ ''c-1-2024'' @ [CHR 0x85])) db_casos
     = Inl (ValidationError (''Ya existe un caso con el rol '' @ [CHR 0x27] @ ''C-1-2024'' @ [CHR 0x27]))"
    unfolding normaliza_ejemplo by simp
  from clean_rol_normaliza [OF h(1), where isspace = espacio_latin1 and upper = mayus_latin1
      and inst = "caso_de (Some 1) ''C-1-2024'' 107 EN_TRAMITACION ana" and d = db_casos,
      THEN conjunct1] u2
  have b: "clean_rol espacio_latin1 mayus_latin1 (caso_de (Some 1) ''C-1-2024'' 107 EN_TRAMITACION ana)
        (Some ([CHR 0xA0] @ ''c-1-2024'' @ [CHR 0x85])) db_casos
     = Inr (Some ''C-1-2024'')"
    unfolding normaliza_ejemplo by simp
  from clean_rol_normaliza [OF h(2), where isspace = espacio_latin1 and upper = mayus_latin1
      and inst = caso_nuevo and d = db_casos, THEN conjunct1] u3
  have c: "clean_rol espacio_latin1 mayus_latin1 caso_nuevo (Some ('' pe'' @ [CHR 0xF1] @ ''a-7'')) db_casos
     = Inr (Some (''PE'' @ [CHR 0xD1] @ ''A-7''))"
    unfolding normaliza_ejemplo_letra by simp
  from clean_rol_normaliza [OF h(3), where isspace = espacio_latin1 and upper = mayus_latin1
      and inst = caso_nuevo and d = db_casos and up = mayus_latin1_car,
      THEN conjunct2, THEN conjunct2, THEN conjunct2, THEN conjunct2] p letras_ejemplo
  have e: "clean_rol espacio_latin1 mayus_latin1 caso_nuevo (Some ''c-1-2024'') db_casos
     = clean_rol espacio_latin1 mayus_latin1 caso_nuevo (Some ''C-1-2024'') db_casos"
    by blast
  from a b c e show ?thesis by blast
qed

end
